theory Spec2Isabelle
  imports Complex_Main "HOL-Library.Signed_Division" "HOL-Library.Word"
begin

section \<open>Numbers, vectors and poses\<close>

text \<open>
  The camera header computes with \<^verbatim>\<open>float\<close> and \<^verbatim>\<open>double\<close>. Both are
  modelled as \<^typ>\<open>real\<close>, so every statement below is about exact arithmetic: the casts
  between \<^verbatim>\<open>double\<close> and \<^verbatim>\<open>float\<close> and the cast of a pixel index to
  \<^verbatim>\<open>float\<close> are the identity (the embedding of the integers), and rounding, infinities
  and NaN are outside the model. Division by zero, which gives an infinity or a NaN in the
  program, is \<open>0\<close> in HOL; no statement below relies on that value.

  \<^verbatim>\<open>int\<close> is modelled as \<^typ>\<open>int\<close>. The table size \<^verbatim>\<open>width_ * height_\<close> is
  checked against the 32-bit range where it is formed; the index \<^verbatim>\<open>y * width_ + x\<close>
  of a pixel of the image lies below it.
\<close>

type_synonym vec2 = "real \<times> real"
type_synonym vec3 = "real \<times> real \<times> real"

text \<open>A 3x3 matrix, stored as its three rows.\<close>

type_synonym mat3 = "vec3 \<times> vec3 \<times> vec3"

text \<open>
  \<^verbatim>\<open>Eigen::Affine3d\<close>: of the 4x4 matrix, the 3x3 block at (0, 0) and the 3x1 block
  at (0, 3); the last row is (0, 0, 0, 1).
\<close>

record affine3 =
  linear :: mat3
  translation :: vec3

definition vec3_add :: "vec3 \<Rightarrow> vec3 \<Rightarrow> vec3" where
  "vec3_add a b = (case a of (a0, a1, a2) \<Rightarrow> case b of (b0, b1, b2) \<Rightarrow>
     (a0 + b0, a1 + b1, a2 + b2))"

definition vec3_scale :: "real \<Rightarrow> vec3 \<Rightarrow> vec3" where
  "vec3_scale s a = (case a of (a0, a1, a2) \<Rightarrow> (s * a0, s * a1, s * a2))"

definition squaredNorm :: "vec3 \<Rightarrow> real" where
  "squaredNorm a = (case a of (a0, a1, a2) \<Rightarrow> a0 * a0 + a1 * a1 + a2 * a2)"

text \<open>
  \<^verbatim>\<open>Eigen::Vector3f::normalize()\<close> divides the vector by its norm when the squared norm
  is positive and leaves it as it is otherwise.
\<close>

definition vec3_normalize :: "vec3 \<Rightarrow> vec3" where
  "vec3_normalize a = (let z = squaredNorm a in
     if 0 < z then (case a of (a0, a1, a2) \<Rightarrow> (a0 / sqrt z, a1 / sqrt z, a2 / sqrt z))
     else a)"

definition col :: "nat \<Rightarrow> mat3 \<Rightarrow> vec3" where
  "col j m = (case m of ((m00, m01, m02), (m10, m11, m12), (m20, m21, m22)) \<Rightarrow>
     (if j = 0 then (m00, m10, m20) else if j = 1 then (m01, m11, m21) else (m02, m12, m22)))"

definition mat_vec :: "mat3 \<Rightarrow> vec3 \<Rightarrow> vec3" where
  "mat_vec m v = (case m of ((m00, m01, m02), (m10, m11, m12), (m20, m21, m22)) \<Rightarrow>
     case v of (v0, v1, v2) \<Rightarrow>
       (m00 * v0 + m01 * v1 + m02 * v2,
        m10 * v0 + m11 * v1 + m12 * v2,
        m20 * v0 + m21 * v1 + m22 * v2))"

definition determinant :: "mat3 \<Rightarrow> real" where
  "determinant m = (case m of ((a, b, c), (d, e, f), (g, h, i)) \<Rightarrow>
     a * (e * i - f * h) - b * (d * i - f * g) + c * (d * h - e * g))"

definition mat3_inverse :: "mat3 \<Rightarrow> mat3" where
  "mat3_inverse m = (case m of ((a, b, c), (d, e, f), (g, h, i)) \<Rightarrow>
     (let k = determinant m in
      (((e * i - f * h) / k, (c * h - b * i) / k, (b * f - c * e) / k),
       ((f * g - d * i) / k, (a * i - c * g) / k, (c * d - a * f) / k),
       ((d * h - e * g) / k, (b * g - a * h) / k, (a * e - b * d) / k))))"

text \<open>
  \<^verbatim>\<open>Eigen::Affine3d::inverse()\<close>: the inverse of the linear block, and the translation
  mapped through it and negated.
\<close>

definition affine3_inverse :: "affine3 \<Rightarrow> affine3" where
  "affine3_inverse p = (let r = mat3_inverse (linear p) in
     \<lparr>linear = r, translation = vec3_scale (- 1) (mat_vec r (translation p))\<rparr>)"

definition affine3_Identity :: affine3 where
  "affine3_Identity = \<lparr>linear = ((1, 0, 0), (0, 1, 0), (0, 0, 1)), translation = (0, 0, 0)\<rparr>"

section \<open>Camera\<close>

text \<open>
  The fields of \<^verbatim>\<open>class Camera\<close>, under the source's names without the trailing
  underscore.
\<close>

record camera =
  width :: int
  height :: int
  c2w :: affine3
  w2c :: affine3
  c2w_R_f :: mat3
  c2w_t_f :: vec3
  x_direc :: vec3
  y_direc :: vec3
  z_direc :: vec3
  w2c_R_f :: mat3
  w2c_t_f :: vec3

definition Camera_set_size :: "int \<Rightarrow> int \<Rightarrow> 'a camera_scheme \<Rightarrow> 'a camera_scheme" where
  "Camera_set_size w h c = c\<lparr>width := w, height := h\<rparr>"

definition Camera_set_c2w :: "affine3 \<Rightarrow> 'a camera_scheme \<Rightarrow> 'a camera_scheme" where
  "Camera_set_c2w p c =
     c\<lparr>c2w := p,
       w2c := affine3_inverse p,
       c2w_R_f := linear p,
       c2w_t_f := translation p,
       x_direc := col 0 (linear p),
       y_direc := col 1 (linear p),
       z_direc := col 2 (linear p),
       w2c_R_f := linear (affine3_inverse p),
       w2c_t_f := translation (affine3_inverse p)\<rparr>"

section \<open>Per-pixel tables\<close>

text \<open>
  The four tables are \<^verbatim>\<open>std::vector<Eigen::Vector3f>\<close>. A cell is \<open>Some v\<close> once a
  vector has been stored in it; \<open>None\<close> is a cell that \<^verbatim>\<open>resize\<close> has added and
  nothing has written yet (Eigen does not initialise a default-constructed vector).
\<close>

type_synonym ray_table = "vec3 option list"

datatype error =
  IntOverflow  \<comment> \<open>\<^verbatim>\<open>width_ * height_\<close> leaves the range of \<^verbatim>\<open>int\<close>: undefined behaviour\<close>
| LengthError  \<comment> \<open>\<^verbatim>\<open>std::length_error\<close> of \<^verbatim>\<open>std::vector::resize\<close>\<close>

text \<open>
  The argument of the four \<^verbatim>\<open>resize\<close> calls: the \<^verbatim>\<open>int\<close> product
  \<^verbatim>\<open>width_ * height_\<close>, converted to \<^verbatim>\<open>size_t\<close>. A negative product becomes a
  count above \<^verbatim>\<open>max_size()\<close>, for which \<^verbatim>\<open>resize\<close> throws. Running out of
  memory is not modelled.
\<close>

definition table_count :: "int \<Rightarrow> int \<Rightarrow> error + nat" where
  "table_count w h = (let n = w * h in
     if n < - (2 ^ 31) \<or> 2 ^ 31 \<le> n then Inl IntOverflow
     else if n < 0 then Inl LengthError
     else Inr (nat n))"

definition resize :: "nat \<Rightarrow> ray_table \<Rightarrow> ray_table" where
  "resize n t = take n t @ replicate (n - length t) None"

text \<open>
  \<^verbatim>\<open>table[y * width_ + x]\<close> read by a discrete accessor. The program does not check the
  index; a read outside the table is undefined behaviour and is \<open>None\<close> here, as is the read
  of a cell that was never written.
\<close>

definition table_at :: "ray_table \<Rightarrow> int \<Rightarrow> vec3 option" where
  "table_at t i = (if 0 \<le> i \<and> i < int (length t) then t ! nat i else None)"

section \<open>PinholeCamera\<close>

record pinhole_camera = camera +
  principal_point :: vec2
  focal_length :: vec2
  org_ray_c_table :: ray_table
  org_ray_w_table :: ray_table
  ray_c_table :: ray_table
  ray_w_table :: ray_table

subsection \<open>Projection\<close>

text \<open>The three overloads of \<^verbatim>\<open>Project\<close>, by their output parameters.\<close>

definition PinholeCamera_Project_3f :: "pinhole_camera \<Rightarrow> vec3 \<Rightarrow> vec3" where
  "PinholeCamera_Project_3f c camera_p = (case camera_p of (p0, p1, p2) \<Rightarrow>
     (fst (focal_length c) / p2 * p0 + fst (principal_point c),
      snd (focal_length c) / p2 * p1 + snd (principal_point c),
      p2))"

definition PinholeCamera_Project_2f :: "pinhole_camera \<Rightarrow> vec3 \<Rightarrow> vec2" where
  "PinholeCamera_Project_2f c camera_p = (case camera_p of (p0, p1, p2) \<Rightarrow>
     (fst (focal_length c) / p2 * p0 + fst (principal_point c),
      snd (focal_length c) / p2 * p1 + snd (principal_point c)))"

definition PinholeCamera_Project_2f_d :: "pinhole_camera \<Rightarrow> vec3 \<Rightarrow> vec2 \<times> real" where
  "PinholeCamera_Project_2f_d c camera_p = (case camera_p of (p0, p1, p2) \<Rightarrow>
     ((fst (focal_length c) / p2 * p0 + fst (principal_point c),
       snd (focal_length c) / p2 * p1 + snd (principal_point c)),
      p2))"

text \<open>The two overloads of \<^verbatim>\<open>Unproject\<close>.\<close>

definition PinholeCamera_Unproject_3f :: "pinhole_camera \<Rightarrow> vec3 \<Rightarrow> vec3" where
  "PinholeCamera_Unproject_3f c image_p = (case image_p of (i0, i1, i2) \<Rightarrow>
     ((i0 - fst (principal_point c)) * i2 / fst (focal_length c),
      (i1 - snd (principal_point c)) * i2 / snd (focal_length c),
      i2))"

definition PinholeCamera_Unproject_2f_d :: "pinhole_camera \<Rightarrow> vec2 \<Rightarrow> real \<Rightarrow> vec3" where
  "PinholeCamera_Unproject_2f_d c image_p d = (case image_p of (i0, i1) \<Rightarrow>
     ((i0 - fst (principal_point c)) * d / fst (focal_length c),
      (i1 - snd (principal_point c)) * d / snd (focal_length c),
      d))"

subsection \<open>Rays at continuous coordinates\<close>

definition PinholeCamera_org_ray_c :: "pinhole_camera \<Rightarrow> real \<Rightarrow> real \<Rightarrow> vec3" where
  "PinholeCamera_org_ray_c c x y = (0, 0, 0)"

definition PinholeCamera_org_ray_w :: "pinhole_camera \<Rightarrow> real \<Rightarrow> real \<Rightarrow> vec3" where
  "PinholeCamera_org_ray_w c x y = c2w_t_f c"

definition PinholeCamera_ray_c :: "pinhole_camera \<Rightarrow> real \<Rightarrow> real \<Rightarrow> vec3" where
  "PinholeCamera_ray_c c x y =
     vec3_normalize ((x - fst (principal_point c)) / fst (focal_length c),
                (y - snd (principal_point c)) / snd (focal_length c),
                1)"

definition PinholeCamera_ray_w :: "pinhole_camera \<Rightarrow> real \<Rightarrow> real \<Rightarrow> vec3" where
  "PinholeCamera_ray_w c x y = mat_vec (c2w_R_f c) (PinholeCamera_ray_c c x y)"

subsection \<open>Rays at pixels: the table lookups\<close>

definition PinholeCamera_org_ray_c_int :: "pinhole_camera \<Rightarrow> int \<Rightarrow> int \<Rightarrow> vec3 option" where
  "PinholeCamera_org_ray_c_int c x y = table_at (org_ray_c_table c) (y * width c + x)"

definition PinholeCamera_org_ray_w_int :: "pinhole_camera \<Rightarrow> int \<Rightarrow> int \<Rightarrow> vec3 option" where
  "PinholeCamera_org_ray_w_int c x y = table_at (org_ray_w_table c) (y * width c + x)"

definition PinholeCamera_ray_c_int :: "pinhole_camera \<Rightarrow> int \<Rightarrow> int \<Rightarrow> vec3 option" where
  "PinholeCamera_ray_c_int c x y = table_at (ray_c_table c) (y * width c + x)"

definition PinholeCamera_ray_w_int :: "pinhole_camera \<Rightarrow> int \<Rightarrow> int \<Rightarrow> vec3 option" where
  "PinholeCamera_ray_w_int c x y = table_at (ray_w_table c) (y * width c + x)"

subsection \<open>InitRayTable\<close>

text \<open>The body of the two nested loops, at row \<open>y\<close> and column \<open>x\<close>.\<close>

definition PinholeCamera_fill :: "int \<Rightarrow> int \<Rightarrow> pinhole_camera \<Rightarrow> pinhole_camera" where
  "PinholeCamera_fill y x c = (let i = nat (y * width c + x) in
     c\<lparr>org_ray_c_table :=
         (org_ray_c_table c)[i := Some (PinholeCamera_org_ray_c c (of_int x) (of_int y))],
       org_ray_w_table :=
         (org_ray_w_table c)[i := Some (PinholeCamera_org_ray_w c (of_int x) (of_int y))],
       ray_c_table :=
         (ray_c_table c)[i := Some (PinholeCamera_ray_c c (of_int x) (of_int y))],
       ray_w_table :=
         (ray_w_table c)[i := Some (PinholeCamera_ray_w c (of_int x) (of_int y))]\<rparr>)"

definition PinholeCamera_InitRayTable :: "pinhole_camera \<Rightarrow> error + pinhole_camera" where
  "PinholeCamera_InitRayTable c =
     (case table_count (width c) (height c) of
        Inl e \<Rightarrow> Inl e
      | Inr n \<Rightarrow>
          Inr (fold (\<lambda>y. fold (PinholeCamera_fill y) [0 .. width c - 1])
                 [0 .. height c - 1]
                 (c\<lparr>org_ray_c_table := resize n (org_ray_c_table c),
                    org_ray_w_table := resize n (org_ray_w_table c),
                    ray_c_table := resize n (ray_c_table c),
                    ray_w_table := resize n (ray_w_table c)\<rparr>)))"

subsection \<open>Setters and the field-of-view interface\<close>

definition PinholeCamera_set_size :: "int \<Rightarrow> int \<Rightarrow> pinhole_camera \<Rightarrow> error + pinhole_camera" where
  "PinholeCamera_set_size w h c = PinholeCamera_InitRayTable (Camera_set_size w h c)"

definition PinholeCamera_set_c2w :: "affine3 \<Rightarrow> pinhole_camera \<Rightarrow> error + pinhole_camera" where
  "PinholeCamera_set_c2w p c = PinholeCamera_InitRayTable (Camera_set_c2w p c)"

definition PinholeCamera_set_principal_point ::
  "vec2 \<Rightarrow> pinhole_camera \<Rightarrow> error + pinhole_camera" where
  "PinholeCamera_set_principal_point pp c = PinholeCamera_InitRayTable (c\<lparr>principal_point := pp\<rparr>)"

definition PinholeCamera_set_focal_length ::
  "vec2 \<Rightarrow> pinhole_camera \<Rightarrow> error + pinhole_camera" where
  "PinholeCamera_set_focal_length fl c = PinholeCamera_InitRayTable (c\<lparr>focal_length := fl\<rparr>)"

text \<open>
  Modelled from the spec: \<^verbatim>\<open>radians<float>\<close> is declared in
  \<^verbatim>\<open>currender/common.h\<close>, which is not among the sources; the field-of-view interface
  is in degrees and the conversion is \<open>fov = 2 * atan (extent / 2 / focal_length)\<close>, so it
  is the conversion from degrees to radians.
\<close>

definition radians :: "real \<Rightarrow> real" where
  "radians d = d * pi / 180"

text \<open>
  Modelled from the spec: \<^verbatim>\<open>degrees<float>\<close> of \<^verbatim>\<open>currender/common.h\<close>, the
  inverse conversion.
\<close>

definition degrees :: "real \<Rightarrow> real" where
  "degrees r = r * 180 / pi"

definition PinholeCamera_fov_x :: "pinhole_camera \<Rightarrow> real" where
  "PinholeCamera_fov_x c = degrees (2 * arctan (of_int (width c) * 0.5 / fst (focal_length c)))"

definition PinholeCamera_fov_y :: "pinhole_camera \<Rightarrow> real" where
  "PinholeCamera_fov_y c = degrees (2 * arctan (of_int (height c) * 0.5 / snd (focal_length c)))"

text \<open>
  The two field-of-view setters divide half the extent by the tangent of half the angle.
  Where that tangent is zero the program divides by zero (an infinity, or a NaN when the
  extent is zero too); a statement about the focal length they store takes the tangent
  nonzero.
\<close>

definition PinholeCamera_set_fov_x :: "real \<Rightarrow> pinhole_camera \<Rightarrow> error + pinhole_camera" where
  "PinholeCamera_set_fov_x fov_x_deg c =
     (let c1 = c\<lparr>focal_length :=
                  (of_int (width c) * 0.5 / tan (radians fov_x_deg * 0.5), snd (focal_length c))\<rparr>;
          c2 = c1\<lparr>focal_length := (fst (focal_length c1), fst (focal_length c1))\<rparr>
      in PinholeCamera_InitRayTable c2)"

definition PinholeCamera_set_fov_y :: "real \<Rightarrow> pinhole_camera \<Rightarrow> error + pinhole_camera" where
  "PinholeCamera_set_fov_y fov_y_deg c =
     (let c1 = c\<lparr>focal_length :=
                  (fst (focal_length c), of_int (height c) * 0.5 / tan (radians fov_y_deg * 0.5))\<rparr>;
          c2 = c1\<lparr>focal_length := (snd (focal_length c1), snd (focal_length c1))\<rparr>
      in PinholeCamera_InitRayTable c2)"

subsection \<open>Constructors\<close>

text \<open>
  \<^verbatim>\<open>PinholeCamera(width, height, c2w, principal_point, focal_length)\<close>: the base
  constructor stores the size and the pose and calls \<^verbatim>\<open>Camera::set_c2w\<close>, which writes
  every cached pose field; the tables start empty and \<^verbatim>\<open>InitRayTable\<close> builds them.
\<close>

definition PinholeCamera_new ::
  "int \<Rightarrow> int \<Rightarrow> affine3 \<Rightarrow> vec2 \<Rightarrow> vec2 \<Rightarrow> error + pinhole_camera" where
  "PinholeCamera_new w h p pp fl =
     PinholeCamera_InitRayTable
       (Camera_set_c2w p
          \<lparr>width = w, height = h, c2w = p, w2c = affine3_inverse p,
           c2w_R_f = linear p, c2w_t_f = translation p,
           x_direc = col 0 (linear p), y_direc = col 1 (linear p), z_direc = col 2 (linear p),
           w2c_R_f = linear (affine3_inverse p), w2c_t_f = translation (affine3_inverse p),
           principal_point = pp, focal_length = fl,
           org_ray_c_table = [], org_ray_w_table = [], ray_c_table = [], ray_w_table = []\<rparr>)"

text \<open>
  \<^verbatim>\<open>PinholeCamera()\<close>: width and height \<open>-1\<close>, the identity pose, principal point and
  focal length \<open>(-1, -1)\<close>.
\<close>

definition PinholeCamera_default :: "error + pinhole_camera" where
  "PinholeCamera_default = PinholeCamera_new (- 1) (- 1) affine3_Identity (- 1, - 1) (- 1, - 1)"

section \<open>OrthoCamera\<close>

record ortho_camera = camera +
  ortho_org_ray_c_table :: ray_table
  ortho_org_ray_w_table :: ray_table
  ortho_ray_c_table :: ray_table
  ortho_ray_w_table :: ray_table

subsection \<open>Projection\<close>

definition OrthoCamera_Project_3f :: "ortho_camera \<Rightarrow> vec3 \<Rightarrow> vec3" where
  "OrthoCamera_Project_3f c camera_p = camera_p"

definition OrthoCamera_Project_2f :: "ortho_camera \<Rightarrow> vec3 \<Rightarrow> vec2" where
  "OrthoCamera_Project_2f c camera_p = (case camera_p of (p0, p1, p2) \<Rightarrow> (p0, p1))"

definition OrthoCamera_Project_2f_d :: "ortho_camera \<Rightarrow> vec3 \<Rightarrow> vec2 \<times> real" where
  "OrthoCamera_Project_2f_d c camera_p = (case camera_p of (p0, p1, p2) \<Rightarrow> ((p0, p1), p2))"

definition OrthoCamera_Unproject_3f :: "ortho_camera \<Rightarrow> vec3 \<Rightarrow> vec3" where
  "OrthoCamera_Unproject_3f c image_p = image_p"

definition OrthoCamera_Unproject_2f_d :: "ortho_camera \<Rightarrow> vec2 \<Rightarrow> real \<Rightarrow> vec3" where
  "OrthoCamera_Unproject_2f_d c image_p d = (case image_p of (i0, i1) \<Rightarrow> (i0, i1, d))"

subsection \<open>Rays at continuous coordinates\<close>

text \<open>
  In \<^verbatim>\<open>x - width_ / 2\<close> the quotient is a division of two \<^verbatim>\<open>int\<close>s, which truncates
  towards zero (\<open>sdiv\<close>), and is converted to \<^verbatim>\<open>float\<close> afterwards; in
  \<^verbatim>\<open>x - width_ * 0.5f\<close> the width is converted first.
\<close>

definition OrthoCamera_org_ray_c :: "ortho_camera \<Rightarrow> real \<Rightarrow> real \<Rightarrow> vec3" where
  "OrthoCamera_org_ray_c c x y =
     (x - of_int (width c sdiv 2), y - of_int (height c sdiv 2), 0)"

definition OrthoCamera_org_ray_w :: "ortho_camera \<Rightarrow> real \<Rightarrow> real \<Rightarrow> vec3" where
  "OrthoCamera_org_ray_w c x y =
     (let org = c2w_t_f c;
          offset_x = vec3_scale (x - of_int (width c) * 0.5) (x_direc c);
          offset_y = vec3_scale (y - of_int (height c) * 0.5) (y_direc c);
          org = vec3_add org offset_x;
          org = vec3_add org offset_y
      in org)"

definition OrthoCamera_ray_c :: "ortho_camera \<Rightarrow> real \<Rightarrow> real \<Rightarrow> vec3" where
  "OrthoCamera_ray_c c x y = (0, 0, 1)"

definition OrthoCamera_ray_w :: "ortho_camera \<Rightarrow> real \<Rightarrow> real \<Rightarrow> vec3" where
  "OrthoCamera_ray_w c x y = z_direc c"

subsection \<open>Rays at pixels: the table lookups\<close>

definition OrthoCamera_org_ray_c_int :: "ortho_camera \<Rightarrow> int \<Rightarrow> int \<Rightarrow> vec3 option" where
  "OrthoCamera_org_ray_c_int c x y = table_at (ortho_org_ray_c_table c) (y * width c + x)"

definition OrthoCamera_org_ray_w_int :: "ortho_camera \<Rightarrow> int \<Rightarrow> int \<Rightarrow> vec3 option" where
  "OrthoCamera_org_ray_w_int c x y = table_at (ortho_org_ray_w_table c) (y * width c + x)"

definition OrthoCamera_ray_c_int :: "ortho_camera \<Rightarrow> int \<Rightarrow> int \<Rightarrow> vec3 option" where
  "OrthoCamera_ray_c_int c x y = table_at (ortho_ray_c_table c) (y * width c + x)"

definition OrthoCamera_ray_w_int :: "ortho_camera \<Rightarrow> int \<Rightarrow> int \<Rightarrow> vec3 option" where
  "OrthoCamera_ray_w_int c x y = table_at (ortho_ray_w_table c) (y * width c + x)"

subsection \<open>InitRayTable and the setters\<close>

definition OrthoCamera_fill :: "int \<Rightarrow> int \<Rightarrow> ortho_camera \<Rightarrow> ortho_camera" where
  "OrthoCamera_fill y x c = (let i = nat (y * width c + x) in
     c\<lparr>ortho_org_ray_c_table :=
         (ortho_org_ray_c_table c)[i := Some (OrthoCamera_org_ray_c c (of_int x) (of_int y))],
       ortho_org_ray_w_table :=
         (ortho_org_ray_w_table c)[i := Some (OrthoCamera_org_ray_w c (of_int x) (of_int y))],
       ortho_ray_c_table :=
         (ortho_ray_c_table c)[i := Some (OrthoCamera_ray_c c (of_int x) (of_int y))],
       ortho_ray_w_table :=
         (ortho_ray_w_table c)[i := Some (OrthoCamera_ray_w c (of_int x) (of_int y))]\<rparr>)"

definition OrthoCamera_InitRayTable :: "ortho_camera \<Rightarrow> error + ortho_camera" where
  "OrthoCamera_InitRayTable c =
     (case table_count (width c) (height c) of
        Inl e \<Rightarrow> Inl e
      | Inr n \<Rightarrow>
          Inr (fold (\<lambda>y. fold (OrthoCamera_fill y) [0 .. width c - 1])
                 [0 .. height c - 1]
                 (c\<lparr>ortho_org_ray_c_table := resize n (ortho_org_ray_c_table c),
                    ortho_org_ray_w_table := resize n (ortho_org_ray_w_table c),
                    ortho_ray_c_table := resize n (ortho_ray_c_table c),
                    ortho_ray_w_table := resize n (ortho_ray_w_table c)\<rparr>)))"

definition OrthoCamera_set_size :: "int \<Rightarrow> int \<Rightarrow> ortho_camera \<Rightarrow> error + ortho_camera" where
  "OrthoCamera_set_size w h c = OrthoCamera_InitRayTable (Camera_set_size w h c)"

definition OrthoCamera_set_c2w :: "affine3 \<Rightarrow> ortho_camera \<Rightarrow> error + ortho_camera" where
  "OrthoCamera_set_c2w p c = OrthoCamera_InitRayTable (Camera_set_c2w p c)"

text \<open>\<^verbatim>\<open>OrthoCamera(width, height, c2w)\<close>.\<close>

definition OrthoCamera_new :: "int \<Rightarrow> int \<Rightarrow> affine3 \<Rightarrow> error + ortho_camera" where
  "OrthoCamera_new w h p =
     OrthoCamera_InitRayTable
       (Camera_set_c2w p
          \<lparr>width = w, height = h, c2w = p, w2c = affine3_inverse p,
           c2w_R_f = linear p, c2w_t_f = translation p,
           x_direc = col 0 (linear p), y_direc = col 1 (linear p), z_direc = col 2 (linear p),
           w2c_R_f = linear (affine3_inverse p), w2c_t_f = translation (affine3_inverse p),
           ortho_org_ray_c_table = [], ortho_org_ray_w_table = [],
           ortho_ray_c_table = [], ortho_ray_w_table = []\<rparr>)"

section \<open>Renderer\<close>

text \<open>
  \<^verbatim>\<open>renderer.h\<close> declares the classes; the fields below are the ones the readiness
  check of \<^verbatim>\<open>render\<close> is about. The flattened vertex and face arrays and the
  acceleration structure are not modelled. The mesh type is a parameter.
\<close>

datatype ColorInterpolation = NN | BILINEAR

record RendererOption =
  use_vertex_color :: bool
  depth_scale :: real
  interp :: ColorInterpolation
  backface_culling :: bool

definition RendererOption_new :: RendererOption where
  "RendererOption_new =
     \<lparr>use_vertex_color = False, depth_scale = 1, interp = BILINEAR, backface_culling = True\<rparr>"

text \<open>\<^verbatim>\<open>std::shared_ptr<Camera>\<close>: a camera of one of the two subclasses, or null.\<close>

datatype camera_ptr = Pinhole pinhole_camera | Ortho ortho_camera

fun camera_width :: "camera_ptr \<Rightarrow> int" where
  "camera_width (Pinhole c) = width c"
| "camera_width (Ortho c) = width c"

fun camera_height :: "camera_ptr \<Rightarrow> int" where
  "camera_height (Pinhole c) = height c"
| "camera_height (Ortho c) = height c"

record 'm renderer =
  mesh_initialized :: bool
  camera_ref :: "camera_ptr option"
  mesh_ref :: "'m option"
  option_val :: RendererOption

text \<open>An image: its size and its pixels, row by row.\<close>

record 'p image =
  image_width :: int
  image_height :: int
  image_data :: "'p list"

type_synonym rgb = "8 word \<times> 8 word \<times> 8 word"

text \<open>The three outputs: \<^verbatim>\<open>Image3b\<close> colour, \<^verbatim>\<open>Image1w\<close> depth, \<^verbatim>\<open>Image1b\<close> mask.\<close>

type_synonym outputs = "rgb image \<times> 16 word image \<times> 8 word image"

definition image_at :: "'p image \<Rightarrow> int \<Rightarrow> int \<Rightarrow> 'p option" where
  "image_at im x y =
     (let i = y * image_width im + x in
      if 0 \<le> i \<and> i < int (length (image_data im)) then Some (image_data im ! nat i) else None)"

text \<open>
  The bodies of \<^verbatim>\<open>Renderer::Renderer\<close>, \<^verbatim>\<open>set_mesh\<close>, \<^verbatim>\<open>prepare_mesh\<close>,
  \<^verbatim>\<open>set_camera\<close> and \<^verbatim>\<open>render\<close> are not among the sources (only their declarations
  are); the five definitions below follow the specification's text.
\<close>

text \<open>
  Modelled from the spec: the constructor \<^verbatim>\<open>Renderer::Renderer\<close>. The header's default
  member initialisers give the state: the mesh is not initialised, the camera and mesh
  pointers are null, the option is the default one.
\<close>

definition Renderer_new :: "'m renderer" where
  "Renderer_new =
     \<lparr>mesh_initialized = False, camera_ref = None, mesh_ref = None,
      option_val = RendererOption_new\<rparr>"

text \<open>
  Modelled from the spec: \<^verbatim>\<open>Renderer::set_mesh\<close>. The prepare step must run once per
  mesh assignment before any render call, so assigning a mesh leaves it unprepared.
\<close>

definition set_mesh :: "'m \<Rightarrow> 'm renderer \<Rightarrow> 'm renderer" where
  "set_mesh m r = r\<lparr>mesh_ref := Some m, mesh_initialized := False\<rparr>"

text \<open>Modelled from the spec: \<^verbatim>\<open>Renderer::set_camera\<close>, which sets the camera.\<close>

definition set_camera :: "camera_ptr \<Rightarrow> 'm renderer \<Rightarrow> 'm renderer" where
  "set_camera cam r = r\<lparr>camera_ref := Some cam\<rparr>"

text \<open>
  Modelled from the spec: \<^verbatim>\<open>Renderer::prepare_mesh\<close>. It needs a mesh; it flattens the
  mesh and builds the acceleration structure, which can fail. Whether that succeeds for a
  mesh is the parameter \<open>builds\<close>; the renderer is ready for the mesh only after a success.
\<close>

definition prepare_mesh :: "('m \<Rightarrow> bool) \<Rightarrow> 'm renderer \<Rightarrow> bool \<times> 'm renderer" where
  "prepare_mesh builds r =
     (case mesh_ref r of
        None \<Rightarrow> (False, r)
      | Some m \<Rightarrow> if builds m then (True, r\<lparr>mesh_initialized := True\<rparr>) else (False, r))"

text \<open>
  Modelled from the spec: \<^verbatim>\<open>Renderer::render\<close>. It fails, without writing any output,
  when the mesh is not set and prepared or the camera is not set; otherwise it allocates
  and clears the three outputs to the camera's resolution and dispatches every pixel to
  the active pipeline, and a pixel with no valid hit keeps depth 0, the background colour
  and mask 0. What the pipeline finds at a pixel (a colour and a scaled depth, or no hit) is
  the parameter \<open>pipeline\<close>; the index of pixel \<open>(x, y)\<close> is \<open>y * width + x\<close>.
\<close>

definition render ::
  "(camera_ptr \<Rightarrow> 'm \<Rightarrow> RendererOption \<Rightarrow> int \<Rightarrow> int \<Rightarrow> (rgb \<times> 16 word) option) \<Rightarrow>
   'm renderer \<Rightarrow> outputs \<Rightarrow> bool \<times> outputs" where
  "render pipeline r out =
     (case (mesh_initialized r, mesh_ref r, camera_ref r) of
        (True, Some m, Some cam) \<Rightarrow>
          (let w = camera_width cam; h = camera_height cam;
               hit = (\<lambda>i. pipeline cam m (option_val r) (int i mod w) (int i div w));
               pixels = [0 ..< nat (w * h)]
           in (True,
               \<lparr>image_width = w, image_height = h,
                image_data = map (\<lambda>i. case hit i of None \<Rightarrow> (0, 0, 0) | Some (rgb, d) \<Rightarrow> rgb) pixels\<rparr>,
               \<lparr>image_width = w, image_height = h,
                image_data = map (\<lambda>i. case hit i of None \<Rightarrow> 0 | Some (rgb, d) \<Rightarrow> d) pixels\<rparr>,
               \<lparr>image_width = w, image_height = h,
                image_data = map (\<lambda>i. case hit i of None \<Rightarrow> 0 | Some (rgb, d) \<Rightarrow> 1) pixels\<rparr>))
      | _ \<Rightarrow> (False, out))"

section \<open>Specification-side definitions\<close>

text \<open>
  The projection as the specification writes it: \<open>image = focal_length \<odot> (x, y) / z +
  principal_point\<close>, and its algebraic inverse at depth \<open>d\<close>.
\<close>

definition spec_project :: "vec2 \<Rightarrow> vec2 \<Rightarrow> vec3 \<Rightarrow> vec2" where
  "spec_project fl pp p = (case p of (x, y, z) \<Rightarrow>
     (fst fl * (x / z) + fst pp, snd fl * (y / z) + snd pp))"

definition spec_unproject :: "vec2 \<Rightarrow> vec2 \<Rightarrow> vec2 \<Rightarrow> real \<Rightarrow> vec3" where
  "spec_unproject fl pp img d = (case img of (u, v) \<Rightarrow>
     ((u - fst pp) * d / fst fl, (v - snd pp) * d / snd fl, d))"

text \<open>The vector of length one in the direction of a vector.\<close>

definition spec_normalized :: "vec3 \<Rightarrow> vec3" where
  "spec_normalized a = vec3_scale (1 / sqrt (squaredNorm a)) a"

text \<open>
  The cached single-precision pose fields agree with the pose. \<^verbatim>\<open>Camera::set_c2w\<close>
  writes them all, and every constructor calls it.
\<close>

definition pose_cached :: "'a camera_scheme \<Rightarrow> bool" where
  "pose_cached c \<longleftrightarrow>
     c2w_R_f c = linear (c2w c) \<and> c2w_t_f c = translation (c2w c) \<and>
     x_direc c = col 0 (linear (c2w c)) \<and> y_direc c = col 1 (linear (c2w c)) \<and>
     z_direc c = col 2 (linear (c2w c))"

text \<open>
  The tables agree with the camera: each has \<open>width * height\<close> cells, and at every pixel the
  lookup gives what the continuous accessor computes there.
\<close>

definition PinholeCamera_tables_consistent :: "pinhole_camera \<Rightarrow> bool" where
  "PinholeCamera_tables_consistent c \<longleftrightarrow>
     int (length (org_ray_c_table c)) = width c * height c \<and>
     int (length (org_ray_w_table c)) = width c * height c \<and>
     int (length (ray_c_table c)) = width c * height c \<and>
     int (length (ray_w_table c)) = width c * height c \<and>
     (\<forall>x\<in>{0 ..< width c}. \<forall>y\<in>{0 ..< height c}.
        PinholeCamera_org_ray_c_int c x y = Some (PinholeCamera_org_ray_c c (of_int x) (of_int y)) \<and>
        PinholeCamera_org_ray_w_int c x y = Some (PinholeCamera_org_ray_w c (of_int x) (of_int y)) \<and>
        PinholeCamera_ray_c_int c x y = Some (PinholeCamera_ray_c c (of_int x) (of_int y)) \<and>
        PinholeCamera_ray_w_int c x y = Some (PinholeCamera_ray_w c (of_int x) (of_int y)))"

definition OrthoCamera_tables_consistent :: "ortho_camera \<Rightarrow> bool" where
  "OrthoCamera_tables_consistent c \<longleftrightarrow>
     int (length (ortho_org_ray_c_table c)) = width c * height c \<and>
     int (length (ortho_org_ray_w_table c)) = width c * height c \<and>
     int (length (ortho_ray_c_table c)) = width c * height c \<and>
     int (length (ortho_ray_w_table c)) = width c * height c \<and>
     (\<forall>x\<in>{0 ..< width c}. \<forall>y\<in>{0 ..< height c}.
        OrthoCamera_org_ray_c_int c x y = Some (OrthoCamera_org_ray_c c (of_int x) (of_int y)) \<and>
        OrthoCamera_org_ray_w_int c x y = Some (OrthoCamera_org_ray_w c (of_int x) (of_int y)) \<and>
        OrthoCamera_ray_c_int c x y = Some (OrthoCamera_ray_c c (of_int x) (of_int y)) \<and>
        OrthoCamera_ray_w_int c x y = Some (OrthoCamera_ray_w c (of_int x) (of_int y)))"

section \<open>Invariants of the table-building loops\<close>

text \<open>
  While the loops run, the object differs from the one \<^verbatim>\<open>InitRayTable\<close> was called on
  in its four tables only, and each table has \<open>n\<close> cells.
\<close>

definition pinhole_shape :: "pinhole_camera \<Rightarrow> nat \<Rightarrow> pinhole_camera \<Rightarrow> bool" where
  "pinhole_shape c n s \<longleftrightarrow>
     (\<exists>t1 t2 t3 t4. s = c\<lparr>org_ray_c_table := t1, org_ray_w_table := t2,
                           ray_c_table := t3, ray_w_table := t4\<rparr> \<and>
        length t1 = n \<and> length t2 = n \<and> length t3 = n \<and> length t4 = n)"

text \<open>The cell of pixel \<open>(x, y)\<close> holds, in each table, the value computed at that pixel.\<close>

definition pinhole_cell :: "pinhole_camera \<Rightarrow> pinhole_camera \<Rightarrow> int \<times> int \<Rightarrow> bool" where
  "pinhole_cell c s k \<longleftrightarrow> (case k of (x, y) \<Rightarrow>
     0 \<le> x \<and> x < width c \<and> 0 \<le> y \<and> y < height c \<and>
     table_at (org_ray_c_table s) (y * width c + x) =
       Some (PinholeCamera_org_ray_c c (of_int x) (of_int y)) \<and>
     table_at (org_ray_w_table s) (y * width c + x) =
       Some (PinholeCamera_org_ray_w c (of_int x) (of_int y)) \<and>
     table_at (ray_c_table s) (y * width c + x) =
       Some (PinholeCamera_ray_c c (of_int x) (of_int y)) \<and>
     table_at (ray_w_table s) (y * width c + x) =
       Some (PinholeCamera_ray_w c (of_int x) (of_int y)))"

definition ortho_shape :: "ortho_camera \<Rightarrow> nat \<Rightarrow> ortho_camera \<Rightarrow> bool" where
  "ortho_shape c n s \<longleftrightarrow>
     (\<exists>t1 t2 t3 t4. s = c\<lparr>ortho_org_ray_c_table := t1, ortho_org_ray_w_table := t2,
                           ortho_ray_c_table := t3, ortho_ray_w_table := t4\<rparr> \<and>
        length t1 = n \<and> length t2 = n \<and> length t3 = n \<and> length t4 = n)"

definition ortho_cell :: "ortho_camera \<Rightarrow> ortho_camera \<Rightarrow> int \<times> int \<Rightarrow> bool" where
  "ortho_cell c s k \<longleftrightarrow> (case k of (x, y) \<Rightarrow>
     0 \<le> x \<and> x < width c \<and> 0 \<le> y \<and> y < height c \<and>
     table_at (ortho_org_ray_c_table s) (y * width c + x) =
       Some (OrthoCamera_org_ray_c c (of_int x) (of_int y)) \<and>
     table_at (ortho_org_ray_w_table s) (y * width c + x) =
       Some (OrthoCamera_org_ray_w c (of_int x) (of_int y)) \<and>
     table_at (ortho_ray_c_table s) (y * width c + x) =
       Some (OrthoCamera_ray_c c (of_int x) (of_int y)) \<and>
     table_at (ortho_ray_w_table s) (y * width c + x) =
       Some (OrthoCamera_ray_w c (of_int x) (of_int y)))"


section \<open>Index arithmetic and the loops\<close>

lemma cell_index_inj:
  fixes w :: int
  assumes "0 \<le> x" "x < w" "0 \<le> x'" "x' < w" "y * w + x = y' * w + x'"
  shows "x = x' \<and> y = y'"
proof -
  have "(y * w + x) mod w = x" "(y' * w + x') mod w = x'"
    using assms(1-4) by simp_all
  then have x: "x = x'" using assms(5) by metis
  then have "y * w = y' * w" using assms(5) by simp
  moreover have "w \<noteq> 0" using assms by linarith
  ultimately show ?thesis using x by simp
qed

lemma cell_index_bounds:
  fixes w :: int
  assumes "0 \<le> x" "x < w" "0 \<le> y" "y < h"
  shows "0 \<le> y * w + x" and "y * w + x < w * h"
proof -
  have w: "0 \<le> w" using assms by linarith
  show "0 \<le> y * w + x" using assms w by simp
  have "y * w + x < (y + 1) * w" using assms by (simp add: algebra_simps)
  also have "\<dots> \<le> h * w" using assms w by (intro mult_right_mono) simp_all
  finally show "y * w + x < w * h" by (simp add: mult.commute)
qed

lemma fold_keys:
  fixes step :: "'a \<Rightarrow> 's \<Rightarrow> 's" and keys :: "'a \<Rightarrow> 'k set"
  assumes inv: "\<And>x s. x \<in> X \<Longrightarrow> I s \<Longrightarrow> I (step x s)"
    and self: "\<And>x s k. x \<in> X \<Longrightarrow> I s \<Longrightarrow> k \<in> keys x \<Longrightarrow> ok (step x s) k"
    and pres: "\<And>x s k. x \<in> X \<Longrightarrow> I s \<Longrightarrow> ok s k \<Longrightarrow> ok (step x s) k"
  shows "set xs \<subseteq> X \<Longrightarrow> I s \<Longrightarrow>
     I (fold step xs s) \<and> (\<forall>k. ok s k \<or> k \<in> \<Union> (keys ` set xs) \<longrightarrow> ok (fold step xs s) k)"
proof (induction xs arbitrary: s)
  case Nil
  then show ?case by simp
next
  case (Cons x xs)
  have x: "x \<in> X" and xs: "set xs \<subseteq> X" using Cons.prems(1) by simp_all
  have I': "I (step x s)" using inv x Cons.prems(2) by blast
  note IH = Cons.IH [OF xs I']
  show ?case
  proof (intro conjI allI impI)
    show "I (fold step (x # xs) s)" using IH by simp
  next
    fix k assume k: "ok s k \<or> k \<in> \<Union> (keys ` set (x # xs))"
    then consider "ok s k" | "k \<in> keys x" | "k \<in> \<Union> (keys ` set xs)" by auto
    then have "ok (step x s) k \<or> k \<in> \<Union> (keys ` set xs)"
    proof cases
      case 1 then show ?thesis using pres [OF x Cons.prems(2)] by blast
    next
      case 2 then show ?thesis using self [OF x Cons.prems(2)] by blast
    next
      case 3 then show ?thesis by blast
    qed
    then have "ok (fold step xs (step x s)) k" using IH by blast
    then show "ok (fold step (x # xs) s) k" by simp
  qed
qed

lemma fold_grid:
  fixes step :: "int \<Rightarrow> int \<Rightarrow> 's \<Rightarrow> 's"
  assumes inv: "\<And>x y s. x \<in> set xs \<Longrightarrow> y \<in> set ys \<Longrightarrow> I s \<Longrightarrow> I (step y x s)"
    and self: "\<And>x y s. x \<in> set xs \<Longrightarrow> y \<in> set ys \<Longrightarrow> I s \<Longrightarrow> ok (step y x s) (x, y)"
    and pres: "\<And>x y s k. x \<in> set xs \<Longrightarrow> y \<in> set ys \<Longrightarrow> I s \<Longrightarrow> ok s k \<Longrightarrow> ok (step y x s) k"
    and I: "I s"
  shows "I (fold (\<lambda>y. fold (step y) xs) ys s) \<and>
     (\<forall>x\<in>set xs. \<forall>y\<in>set ys. ok (fold (\<lambda>y. fold (step y) xs) ys s) (x, y))"
proof -
  have row: "I (fold (step y) xs s) \<and>
      (\<forall>k. ok s k \<or> k \<in> \<Union> ((\<lambda>x. {(x, y)}) ` set xs) \<longrightarrow> ok (fold (step y) xs s) k)"
    if "y \<in> set ys" "I s" for y s
    by (rule fold_keys [where X = "set xs" and I = I and ok = ok])
       (use that inv self pres in auto)
  have "I (fold (\<lambda>y. fold (step y) xs) ys s) \<and>
      (\<forall>k. ok s k \<or> k \<in> \<Union> ((\<lambda>y. (\<lambda>x. (x, y)) ` set xs) ` set ys)
         \<longrightarrow> ok (fold (\<lambda>y. fold (step y) xs) ys s) k)"
    by (rule fold_keys [where X = "set ys" and I = I and ok = ok])
       (use row I in auto)
  then show ?thesis by blast
qed

lemma table_at_update:
  "0 \<le> i \<Longrightarrow> 0 \<le> j \<Longrightarrow>
   table_at (t[nat i := v]) j = (if i = j \<and> j < int (length t) then v else table_at t j)"
  by (auto simp: table_at_def nth_list_update)

lemma length_resize: "length (resize n t) = n"
  by (simp add: resize_def)

lemma table_count_ok:
  "0 \<le> w * h \<Longrightarrow> w * h < 2 ^ 31 \<Longrightarrow> table_count w h = Inr (nat (w * h))"
  by (simp add: table_count_def Let_def)

lemma table_count_Inr:
  "table_count w h = Inr n \<Longrightarrow> 0 \<le> w * h \<and> w * h < 2 ^ 31"
  by (simp add: table_count_def Let_def split: if_splits)

lemma table_count_negative: "w * h < 0 \<Longrightarrow> isl (table_count w h)"
  by (simp add: table_count_def Let_def)

section \<open>InitRayTable builds consistent tables\<close>

lemmas PinholeCamera_accessor_defs =
  PinholeCamera_org_ray_c_def PinholeCamera_org_ray_w_def PinholeCamera_ray_c_def
  PinholeCamera_ray_w_def

lemmas PinholeCamera_lookup_defs =
  PinholeCamera_org_ray_c_int_def PinholeCamera_org_ray_w_int_def PinholeCamera_ray_c_int_def
  PinholeCamera_ray_w_int_def

lemma PinholeCamera_fill_shape:
  "pinhole_shape c n s \<Longrightarrow> pinhole_shape c n (PinholeCamera_fill y x s)"
  unfolding pinhole_shape_def PinholeCamera_fill_def Let_def
  apply (elim exE conjE)
  apply (simp only:)
  apply (simp)
  apply (intro exI conjI)
  apply (rule refl)
  apply simp_all
  done

lemma PinholeCamera_fill_self:
  assumes "pinhole_shape c (nat (width c * height c)) s"
    and "0 \<le> x" "x < width c" "0 \<le> y" "y < height c"
  shows "pinhole_cell c (PinholeCamera_fill y x s) (x, y)"
proof -
  from assms(1) obtain t1 t2 t3 t4 where
    s: "s = c\<lparr>org_ray_c_table := t1, org_ray_w_table := t2, ray_c_table := t3, ray_w_table := t4\<rparr>"
    and len: "length t1 = nat (width c * height c)" "length t2 = nat (width c * height c)"
      "length t3 = nat (width c * height c)" "length t4 = nat (width c * height c)"
    unfolding pinhole_shape_def by blast
  have i: "0 \<le> y * width c + x" "y * width c + x < width c * height c"
    using cell_index_bounds [OF assms(2-5)] by simp_all
  show ?thesis
    using i assms(2-5) len
    by (simp add: pinhole_cell_def PinholeCamera_fill_def Let_def s table_at_update
        PinholeCamera_accessor_defs)
qed

lemma PinholeCamera_fill_pres:
  assumes "pinhole_shape c n s"
    and "0 \<le> x" "x < width c" "0 \<le> y" "y < height c"
    and "pinhole_cell c s k"
  shows "pinhole_cell c (PinholeCamera_fill y x s) k"
proof -
  from assms(1) obtain t1 t2 t3 t4 where
    s: "s = c\<lparr>org_ray_c_table := t1, org_ray_w_table := t2, ray_c_table := t3, ray_w_table := t4\<rparr>"
    unfolding pinhole_shape_def by blast
  obtain x0 y0 where k: "k = (x0, y0)" by (cases k)
  have r: "0 \<le> x0" "x0 < width c" "0 \<le> y0" "y0 < height c"
    using assms(6) by (simp_all add: pinhole_cell_def k)
  have i: "0 \<le> y * width c + x" "0 \<le> y0 * width c + x0"
    using cell_index_bounds(1) assms(2-5) r by blast+
  have same: "x0 = x \<and> y0 = y" if "y * width c + x = y0 * width c + x0"
    using cell_index_inj [OF assms(2,3) r(1,2) that] by simp
  show ?thesis
    using assms(6) i same
    by (auto simp: pinhole_cell_def PinholeCamera_fill_def Let_def s k table_at_update
        PinholeCamera_accessor_defs)
qed

lemma PinholeCamera_InitRayTable_consistent:
  assumes "0 \<le> width c * height c" and "width c * height c < 2 ^ 31"
  shows "\<exists>t1 t2 t3 t4.
      PinholeCamera_InitRayTable c =
        Inr (c\<lparr>org_ray_c_table := t1, org_ray_w_table := t2,
                ray_c_table := t3, ray_w_table := t4\<rparr>) \<and>
      PinholeCamera_tables_consistent
        (c\<lparr>org_ray_c_table := t1, org_ray_w_table := t2, ray_c_table := t3, ray_w_table := t4\<rparr>)"
proof -
  define n where "n = nat (width c * height c)"
  define s0 where "s0 = c\<lparr>org_ray_c_table := resize n (org_ray_c_table c),
    org_ray_w_table := resize n (org_ray_w_table c),
    ray_c_table := resize n (ray_c_table c),
    ray_w_table := resize n (ray_w_table c)\<rparr>"
  define s where "s = fold (\<lambda>y. fold (PinholeCamera_fill y) [0 .. width c - 1]) [0 .. height c - 1] s0"
  have run: "PinholeCamera_InitRayTable c = Inr s"
    by (simp add: PinholeCamera_InitRayTable_def table_count_ok [OF assms] s_def s0_def n_def)
  have s0: "pinhole_shape c n s0"
    unfolding pinhole_shape_def s0_def by (intro exI conjI) (rule refl, simp_all add: length_resize)
  have grid: "pinhole_shape c n s \<and>
      (\<forall>x\<in>set [0 .. width c - 1]. \<forall>y\<in>set [0 .. height c - 1]. pinhole_cell c s (x, y))"
    unfolding s_def
  proof (rule fold_grid [where I = "pinhole_shape c n" and ok = "pinhole_cell c"])
    show "pinhole_shape c n s0" by (rule s0)
  next
    fix x y s assume "x \<in> set [0 .. width c - 1]" "y \<in> set [0 .. height c - 1]" "pinhole_shape c n s"
    then show "pinhole_shape c n (PinholeCamera_fill y x s)"
      by (simp add: PinholeCamera_fill_shape)
  next
    fix x y s assume "x \<in> set [0 .. width c - 1]" "y \<in> set [0 .. height c - 1]" "pinhole_shape c n s"
    then show "pinhole_cell c (PinholeCamera_fill y x s) (x, y)"
      using PinholeCamera_fill_self [of c s x y] by (simp add: n_def)
  next
    fix x y s k
    assume "x \<in> set [0 .. width c - 1]" "y \<in> set [0 .. height c - 1]" "pinhole_shape c n s"
      "pinhole_cell c s k"
    then show "pinhole_cell c (PinholeCamera_fill y x s) k"
      using PinholeCamera_fill_pres [of c n s x y k] by simp
  qed
  then obtain t1 t2 t3 t4 where
    s: "s = c\<lparr>org_ray_c_table := t1, org_ray_w_table := t2, ray_c_table := t3, ray_w_table := t4\<rparr>"
    and len: "length t1 = n" "length t2 = n" "length t3 = n" "length t4 = n"
    unfolding pinhole_shape_def by blast
  have cells: "pinhole_cell c s (x, y)" if "0 \<le> x" "x < width c" "0 \<le> y" "y < height c" for x y
    using grid that by simp
  have "PinholeCamera_tables_consistent s"
    unfolding PinholeCamera_tables_consistent_def
  proof (intro conjI ballI)
    show "int (length (org_ray_c_table s)) = width s * height s"
      "int (length (org_ray_w_table s)) = width s * height s"
      "int (length (ray_c_table s)) = width s * height s"
      "int (length (ray_w_table s)) = width s * height s"
      using len assms(1) by (simp_all add: s n_def)
  next
    fix x y assume "x \<in> {0 ..< width s}" "y \<in> {0 ..< height s}"
    then have "pinhole_cell c s (x, y)" using cells by (simp add: s)
    then show
      "PinholeCamera_org_ray_c_int s x y = Some (PinholeCamera_org_ray_c s (of_int x) (of_int y))"
      "PinholeCamera_org_ray_w_int s x y = Some (PinholeCamera_org_ray_w s (of_int x) (of_int y))"
      "PinholeCamera_ray_c_int s x y = Some (PinholeCamera_ray_c s (of_int x) (of_int y))"
      "PinholeCamera_ray_w_int s x y = Some (PinholeCamera_ray_w s (of_int x) (of_int y))"
      by (simp_all add: pinhole_cell_def PinholeCamera_lookup_defs PinholeCamera_accessor_defs s)
  qed
  then show ?thesis using run s by blast
qed

lemmas OrthoCamera_accessor_defs =
  OrthoCamera_org_ray_c_def OrthoCamera_org_ray_w_def OrthoCamera_ray_c_def
  OrthoCamera_ray_w_def

lemmas OrthoCamera_lookup_defs =
  OrthoCamera_org_ray_c_int_def OrthoCamera_org_ray_w_int_def OrthoCamera_ray_c_int_def
  OrthoCamera_ray_w_int_def

lemma OrthoCamera_fill_shape:
  "ortho_shape c n s \<Longrightarrow> ortho_shape c n (OrthoCamera_fill y x s)"
  unfolding ortho_shape_def OrthoCamera_fill_def Let_def
  apply (elim exE conjE)
  apply (simp only:)
  apply (simp)
  apply (intro exI conjI)
  apply (rule refl)
  apply simp_all
  done

lemma OrthoCamera_fill_self:
  assumes "ortho_shape c (nat (width c * height c)) s"
    and "0 \<le> x" "x < width c" "0 \<le> y" "y < height c"
  shows "ortho_cell c (OrthoCamera_fill y x s) (x, y)"
proof -
  from assms(1) obtain t1 t2 t3 t4 where
    s: "s = c\<lparr>ortho_org_ray_c_table := t1, ortho_org_ray_w_table := t2, ortho_ray_c_table := t3, ortho_ray_w_table := t4\<rparr>"
    and len: "length t1 = nat (width c * height c)" "length t2 = nat (width c * height c)"
      "length t3 = nat (width c * height c)" "length t4 = nat (width c * height c)"
    unfolding ortho_shape_def by blast
  have i: "0 \<le> y * width c + x" "y * width c + x < width c * height c"
    using cell_index_bounds [OF assms(2-5)] by simp_all
  show ?thesis
    using i assms(2-5) len
    by (simp add: ortho_cell_def OrthoCamera_fill_def Let_def s table_at_update
        OrthoCamera_accessor_defs)
qed

lemma OrthoCamera_fill_pres:
  assumes "ortho_shape c n s"
    and "0 \<le> x" "x < width c" "0 \<le> y" "y < height c"
    and "ortho_cell c s k"
  shows "ortho_cell c (OrthoCamera_fill y x s) k"
proof -
  from assms(1) obtain t1 t2 t3 t4 where
    s: "s = c\<lparr>ortho_org_ray_c_table := t1, ortho_org_ray_w_table := t2, ortho_ray_c_table := t3, ortho_ray_w_table := t4\<rparr>"
    unfolding ortho_shape_def by blast
  obtain x0 y0 where k: "k = (x0, y0)" by (cases k)
  have r: "0 \<le> x0" "x0 < width c" "0 \<le> y0" "y0 < height c"
    using assms(6) by (simp_all add: ortho_cell_def k)
  have i: "0 \<le> y * width c + x" "0 \<le> y0 * width c + x0"
    using cell_index_bounds(1) assms(2-5) r by blast+
  have same: "x0 = x \<and> y0 = y" if "y * width c + x = y0 * width c + x0"
    using cell_index_inj [OF assms(2,3) r(1,2) that] by simp
  show ?thesis
    using assms(6) i same
    by (auto simp: ortho_cell_def OrthoCamera_fill_def Let_def s k table_at_update
        OrthoCamera_accessor_defs)
qed

lemma OrthoCamera_InitRayTable_consistent:
  assumes "0 \<le> width c * height c" and "width c * height c < 2 ^ 31"
  shows "\<exists>t1 t2 t3 t4.
      OrthoCamera_InitRayTable c =
        Inr (c\<lparr>ortho_org_ray_c_table := t1, ortho_org_ray_w_table := t2,
                ortho_ray_c_table := t3, ortho_ray_w_table := t4\<rparr>) \<and>
      OrthoCamera_tables_consistent
        (c\<lparr>ortho_org_ray_c_table := t1, ortho_org_ray_w_table := t2, ortho_ray_c_table := t3, ortho_ray_w_table := t4\<rparr>)"
proof -
  define n where "n = nat (width c * height c)"
  define s0 where "s0 = c\<lparr>ortho_org_ray_c_table := resize n (ortho_org_ray_c_table c),
    ortho_org_ray_w_table := resize n (ortho_org_ray_w_table c),
    ortho_ray_c_table := resize n (ortho_ray_c_table c),
    ortho_ray_w_table := resize n (ortho_ray_w_table c)\<rparr>"
  define s where "s = fold (\<lambda>y. fold (OrthoCamera_fill y) [0 .. width c - 1]) [0 .. height c - 1] s0"
  have run: "OrthoCamera_InitRayTable c = Inr s"
    by (simp add: OrthoCamera_InitRayTable_def table_count_ok [OF assms] s_def s0_def n_def)
  have s0: "ortho_shape c n s0"
    unfolding ortho_shape_def s0_def by (intro exI conjI) (rule refl, simp_all add: length_resize)
  have grid: "ortho_shape c n s \<and>
      (\<forall>x\<in>set [0 .. width c - 1]. \<forall>y\<in>set [0 .. height c - 1]. ortho_cell c s (x, y))"
    unfolding s_def
  proof (rule fold_grid [where I = "ortho_shape c n" and ok = "ortho_cell c"])
    show "ortho_shape c n s0" by (rule s0)
  next
    fix x y s assume "x \<in> set [0 .. width c - 1]" "y \<in> set [0 .. height c - 1]" "ortho_shape c n s"
    then show "ortho_shape c n (OrthoCamera_fill y x s)"
      by (simp add: OrthoCamera_fill_shape)
  next
    fix x y s assume "x \<in> set [0 .. width c - 1]" "y \<in> set [0 .. height c - 1]" "ortho_shape c n s"
    then show "ortho_cell c (OrthoCamera_fill y x s) (x, y)"
      using OrthoCamera_fill_self [of c s x y] by (simp add: n_def)
  next
    fix x y s k
    assume "x \<in> set [0 .. width c - 1]" "y \<in> set [0 .. height c - 1]" "ortho_shape c n s"
      "ortho_cell c s k"
    then show "ortho_cell c (OrthoCamera_fill y x s) k"
      using OrthoCamera_fill_pres [of c n s x y k] by simp
  qed
  then obtain t1 t2 t3 t4 where
    s: "s = c\<lparr>ortho_org_ray_c_table := t1, ortho_org_ray_w_table := t2, ortho_ray_c_table := t3, ortho_ray_w_table := t4\<rparr>"
    and len: "length t1 = n" "length t2 = n" "length t3 = n" "length t4 = n"
    unfolding ortho_shape_def by blast
  have cells: "ortho_cell c s (x, y)" if "0 \<le> x" "x < width c" "0 \<le> y" "y < height c" for x y
    using grid that by simp
  have "OrthoCamera_tables_consistent s"
    unfolding OrthoCamera_tables_consistent_def
  proof (intro conjI ballI)
    show "int (length (ortho_org_ray_c_table s)) = width s * height s"
      "int (length (ortho_org_ray_w_table s)) = width s * height s"
      "int (length (ortho_ray_c_table s)) = width s * height s"
      "int (length (ortho_ray_w_table s)) = width s * height s"
      using len assms(1) by (simp_all add: s n_def)
  next
    fix x y assume "x \<in> {0 ..< width s}" "y \<in> {0 ..< height s}"
    then have "ortho_cell c s (x, y)" using cells by (simp add: s)
    then show
      "OrthoCamera_org_ray_c_int s x y = Some (OrthoCamera_org_ray_c s (of_int x) (of_int y))"
      "OrthoCamera_org_ray_w_int s x y = Some (OrthoCamera_org_ray_w s (of_int x) (of_int y))"
      "OrthoCamera_ray_c_int s x y = Some (OrthoCamera_ray_c s (of_int x) (of_int y))"
      "OrthoCamera_ray_w_int s x y = Some (OrthoCamera_ray_w s (of_int x) (of_int y))"
      by (simp_all add: ortho_cell_def OrthoCamera_lookup_defs OrthoCamera_accessor_defs s)
  qed
  then show ?thesis using run s by blast
qed

section \<open>What the setters and constructors return\<close>

lemma PinholeCamera_InitRayTable_Inr:
  assumes "PinholeCamera_InitRayTable c = Inr c'"
  shows "0 \<le> width c * height c \<and> width c * height c < 2 ^ 31"
  using assms table_count_Inr [of "width c" "height c"]
  by (auto simp: PinholeCamera_InitRayTable_def split: sum.splits)

lemma PinholeCamera_InitRayTable_fields:
  assumes "PinholeCamera_InitRayTable c = Inr c'"
  shows "\<exists>t1 t2 t3 t4. c' = c\<lparr>org_ray_c_table := t1, org_ray_w_table := t2,
                ray_c_table := t3, ray_w_table := t4\<rparr>"
proof -
  have "0 \<le> width c * height c" "width c * height c < 2 ^ 31"
    using PinholeCamera_InitRayTable_Inr [OF assms] by simp_all
  from PinholeCamera_InitRayTable_consistent [OF this] assms show ?thesis by auto
qed

lemma PinholeCamera_rebuild:
  assumes "0 \<le> width c * height c" and "width c * height c < 2 ^ 31"
  shows "\<exists>c'. PinholeCamera_InitRayTable c = Inr c' \<and>
    width c' = width c \<and> height c' = height c \<and> c2w c' = c2w c \<and>
    principal_point c' = principal_point c \<and> focal_length c' = focal_length c \<and>
    pose_cached c' = pose_cached c \<and> PinholeCamera_tables_consistent c'"
proof -
  from PinholeCamera_InitRayTable_consistent [OF assms]
  obtain t1 t2 t3 t4 where
    run: "PinholeCamera_InitRayTable c = Inr (c\<lparr>org_ray_c_table := t1, org_ray_w_table := t2,
                ray_c_table := t3, ray_w_table := t4\<rparr>)"
    and ok: "PinholeCamera_tables_consistent (c\<lparr>org_ray_c_table := t1, org_ray_w_table := t2,
                ray_c_table := t3, ray_w_table := t4\<rparr>)"
    by blast
  show ?thesis
    using run ok by (simp add: pose_cached_def)
qed

lemma PinholeCamera_InitRayTable_result:
  assumes "PinholeCamera_InitRayTable c0 = Inr c"
  shows "PinholeCamera_tables_consistent c"
proof -
  have "0 \<le> width c0 * height c0" "width c0 * height c0 < 2 ^ 31"
    using PinholeCamera_InitRayTable_Inr [OF assms] by simp_all
  from PinholeCamera_rebuild [OF this] assms show ?thesis by auto
qed

lemma PinholeCamera_new_ok:
  assumes "0 \<le> w * h" and "w * h < 2 ^ 31"
  shows "\<exists>c. PinholeCamera_new w h p pp fl = Inr c \<and> width c = w \<and> height c = h \<and>
    c2w c = p \<and> principal_point c = pp \<and> focal_length c = fl \<and> pose_cached c \<and>
    PinholeCamera_tables_consistent c"
proof -
  let ?c0 = "Camera_set_c2w p
          \<lparr>width = w, height = h, c2w = p, w2c = affine3_inverse p,
           c2w_R_f = linear p, c2w_t_f = translation p,
           x_direc = col 0 (linear p), y_direc = col 1 (linear p), z_direc = col 2 (linear p),
           w2c_R_f = linear (affine3_inverse p), w2c_t_f = translation (affine3_inverse p),
           principal_point = pp, focal_length = fl,
           org_ray_c_table = [], org_ray_w_table = [], ray_c_table = [], ray_w_table = []\<rparr>"
  have "0 \<le> width ?c0 * height ?c0" "width ?c0 * height ?c0 < 2 ^ 31"
    using assms by (simp_all add: Camera_set_c2w_def)
  from PinholeCamera_InitRayTable_consistent [OF this]
  obtain t1 t2 t3 t4 where
    run: "PinholeCamera_InitRayTable ?c0 = Inr (?c0\<lparr>org_ray_c_table := t1, org_ray_w_table := t2,
                ray_c_table := t3, ray_w_table := t4\<rparr>)"
    and ok: "PinholeCamera_tables_consistent (?c0\<lparr>org_ray_c_table := t1, org_ray_w_table := t2,
                ray_c_table := t3, ray_w_table := t4\<rparr>)"
    by blast
  have "pose_cached (?c0\<lparr>org_ray_c_table := t1, org_ray_w_table := t2,
                ray_c_table := t3, ray_w_table := t4\<rparr>)"
    by (simp add: pose_cached_def Camera_set_c2w_def)
  then show ?thesis
    unfolding PinholeCamera_new_def using run ok
    by (intro exI [where x = "?c0\<lparr>org_ray_c_table := t1, org_ray_w_table := t2,
                ray_c_table := t3, ray_w_table := t4\<rparr>"]) (simp add: Camera_set_c2w_def)
qed

lemma PinholeCamera_set_size_ok:
  assumes "0 \<le> w * h" and "w * h < 2 ^ 31"
  shows "\<exists>c'. PinholeCamera_set_size w h c = Inr c' \<and> width c' = w \<and> height c' = h \<and>
    c2w c' = c2w c \<and> principal_point c' = principal_point c \<and>
    focal_length c' = focal_length c \<and> pose_cached c' = pose_cached c \<and>
    PinholeCamera_tables_consistent c'"
  using PinholeCamera_rebuild [of "Camera_set_size w h c"] assms
  by (simp add: PinholeCamera_set_size_def Camera_set_size_def pose_cached_def)

lemma PinholeCamera_set_c2w_ok:
  assumes "0 \<le> width c * height c" and "width c * height c < 2 ^ 31"
  shows "\<exists>c'. PinholeCamera_set_c2w p c = Inr c' \<and> width c' = width c \<and>
    height c' = height c \<and> c2w c' = p \<and> principal_point c' = principal_point c \<and>
    focal_length c' = focal_length c \<and> pose_cached c' \<and> PinholeCamera_tables_consistent c'"
  using PinholeCamera_rebuild [of "Camera_set_c2w p c"] assms
  by (simp add: PinholeCamera_set_c2w_def Camera_set_c2w_def pose_cached_def)

lemma PinholeCamera_set_principal_point_ok:
  assumes "0 \<le> width c * height c" and "width c * height c < 2 ^ 31"
  shows "\<exists>c'. PinholeCamera_set_principal_point pp c = Inr c' \<and> width c' = width c \<and>
    height c' = height c \<and> c2w c' = c2w c \<and> principal_point c' = pp \<and>
    focal_length c' = focal_length c \<and> pose_cached c' = pose_cached c \<and>
    PinholeCamera_tables_consistent c'"
  using PinholeCamera_rebuild [of "c\<lparr>principal_point := pp\<rparr>"] assms
  by (simp add: PinholeCamera_set_principal_point_def pose_cached_def)

lemma PinholeCamera_set_focal_length_ok:
  assumes "0 \<le> width c * height c" and "width c * height c < 2 ^ 31"
  shows "\<exists>c'. PinholeCamera_set_focal_length fl c = Inr c' \<and> width c' = width c \<and>
    height c' = height c \<and> c2w c' = c2w c \<and> principal_point c' = principal_point c \<and>
    focal_length c' = fl \<and> pose_cached c' = pose_cached c \<and>
    PinholeCamera_tables_consistent c'"
  using PinholeCamera_rebuild [of "c\<lparr>focal_length := fl\<rparr>"] assms
  by (simp add: PinholeCamera_set_focal_length_def pose_cached_def)

lemma PinholeCamera_set_fov_x_ok:
  assumes "0 \<le> width c * height c" and "width c * height c < 2 ^ 31"
  shows "\<exists>c'. PinholeCamera_set_fov_x a c = Inr c' \<and> width c' = width c \<and>
    height c' = height c \<and> c2w c' = c2w c \<and> principal_point c' = principal_point c \<and>
    focal_length c' = (of_int (width c) * 0.5 / tan (radians a * 0.5),
                       of_int (width c) * 0.5 / tan (radians a * 0.5)) \<and>
    pose_cached c' = pose_cached c \<and> PinholeCamera_tables_consistent c'"
  using PinholeCamera_rebuild [of "c\<lparr>focal_length :=
     (of_int (width c) * 0.5 / tan (radians a * 0.5),
      of_int (width c) * 0.5 / tan (radians a * 0.5))\<rparr>"] assms
  by (simp add: PinholeCamera_set_fov_x_def Let_def pose_cached_def)

lemma PinholeCamera_set_fov_y_ok:
  assumes "0 \<le> width c * height c" and "width c * height c < 2 ^ 31"
  shows "\<exists>c'. PinholeCamera_set_fov_y a c = Inr c' \<and> width c' = width c \<and>
    height c' = height c \<and> c2w c' = c2w c \<and> principal_point c' = principal_point c \<and>
    focal_length c' = (of_int (height c) * 0.5 / tan (radians a * 0.5),
                       of_int (height c) * 0.5 / tan (radians a * 0.5)) \<and>
    pose_cached c' = pose_cached c \<and> PinholeCamera_tables_consistent c'"
  using PinholeCamera_rebuild [of "c\<lparr>focal_length :=
     (of_int (height c) * 0.5 / tan (radians a * 0.5),
      of_int (height c) * 0.5 / tan (radians a * 0.5))\<rparr>"] assms
  by (simp add: PinholeCamera_set_fov_y_def Let_def pose_cached_def)

lemma OrthoCamera_InitRayTable_Inr:
  assumes "OrthoCamera_InitRayTable c = Inr c'"
  shows "0 \<le> width c * height c \<and> width c * height c < 2 ^ 31"
  using assms table_count_Inr [of "width c" "height c"]
  by (auto simp: OrthoCamera_InitRayTable_def split: sum.splits)

lemma OrthoCamera_rebuild:
  assumes "0 \<le> width c * height c" and "width c * height c < 2 ^ 31"
  shows "\<exists>c'. OrthoCamera_InitRayTable c = Inr c' \<and>
    width c' = width c \<and> height c' = height c \<and> c2w c' = c2w c \<and>
    pose_cached c' = pose_cached c \<and> OrthoCamera_tables_consistent c'"
proof -
  from OrthoCamera_InitRayTable_consistent [OF assms]
  obtain t1 t2 t3 t4 where
    run: "OrthoCamera_InitRayTable c = Inr (c\<lparr>ortho_org_ray_c_table := t1,
                ortho_org_ray_w_table := t2, ortho_ray_c_table := t3, ortho_ray_w_table := t4\<rparr>)"
    and ok: "OrthoCamera_tables_consistent (c\<lparr>ortho_org_ray_c_table := t1,
                ortho_org_ray_w_table := t2, ortho_ray_c_table := t3, ortho_ray_w_table := t4\<rparr>)"
    by blast
  show ?thesis
    using run ok by (simp add: pose_cached_def)
qed

lemma OrthoCamera_InitRayTable_result:
  assumes "OrthoCamera_InitRayTable c0 = Inr c"
  shows "OrthoCamera_tables_consistent c"
proof -
  have "0 \<le> width c0 * height c0" "width c0 * height c0 < 2 ^ 31"
    using OrthoCamera_InitRayTable_Inr [OF assms] by simp_all
  from OrthoCamera_rebuild [OF this] assms show ?thesis by auto
qed

lemma OrthoCamera_new_ok:
  assumes "0 \<le> w * h" and "w * h < 2 ^ 31"
  shows "\<exists>c. OrthoCamera_new w h p = Inr c \<and> width c = w \<and> height c = h \<and>
    c2w c = p \<and> pose_cached c \<and> OrthoCamera_tables_consistent c"
  unfolding OrthoCamera_new_def
  using OrthoCamera_rebuild [of "Camera_set_c2w p
          \<lparr>width = w, height = h, c2w = p, w2c = affine3_inverse p,
           c2w_R_f = linear p, c2w_t_f = translation p,
           x_direc = col 0 (linear p), y_direc = col 1 (linear p), z_direc = col 2 (linear p),
           w2c_R_f = linear (affine3_inverse p), w2c_t_f = translation (affine3_inverse p),
           ortho_org_ray_c_table = [], ortho_org_ray_w_table = [],
           ortho_ray_c_table = [], ortho_ray_w_table = []\<rparr>"] assms
  by (simp add: Camera_set_c2w_def pose_cached_def)

lemma OrthoCamera_set_size_ok:
  assumes "0 \<le> w * h" and "w * h < 2 ^ 31"
  shows "\<exists>c'. OrthoCamera_set_size w h c = Inr c' \<and> width c' = w \<and> height c' = h \<and>
    c2w c' = c2w c \<and> pose_cached c' = pose_cached c \<and> OrthoCamera_tables_consistent c'"
  using OrthoCamera_rebuild [of "Camera_set_size w h c"] assms
  by (simp add: OrthoCamera_set_size_def Camera_set_size_def pose_cached_def)

lemma OrthoCamera_set_c2w_ok:
  assumes "0 \<le> width c * height c" and "width c * height c < 2 ^ 31"
  shows "\<exists>c'. OrthoCamera_set_c2w p c = Inr c' \<and> width c' = width c \<and>
    height c' = height c \<and> c2w c' = p \<and> pose_cached c' \<and> OrthoCamera_tables_consistent c'"
  using OrthoCamera_rebuild [of "Camera_set_c2w p c"] assms
  by (simp add: OrthoCamera_set_c2w_def Camera_set_c2w_def pose_cached_def)

section \<open>Angles and vectors\<close>

lemma fov_roundtrip:
  fixes e :: real
  assumes "e \<noteq> 0" "0 < t" "t < 180"
  shows "degrees (2 * arctan (e * 0.5 / (e * 0.5 / tan (radians t * 0.5)))) = t"
proof -
  have "0 < radians t * 0.5"
    using assms(2) pi_gt_zero by (simp add: radians_def)
  then have a1: "- (pi / 2) < radians t * 0.5"
    using pi_gt_zero by linarith
  have "pi * t < pi * 180"
    using assms(3) pi_gt_zero by simp
  then have a2: "radians t * 0.5 < pi / 2"
    by (simp add: radians_def)
  note a = a1 a2
  have "e * 0.5 / (e * 0.5 / tan (radians t * 0.5)) = tan (radians t * 0.5)"
    using assms(1) by simp
  then have "degrees (2 * arctan (e * 0.5 / (e * 0.5 / tan (radians t * 0.5)))) =
      degrees (2 * (radians t * 0.5))"
    using arctan_tan [OF a] by (simp only:)
  also have "\<dots> = t"
    using pi_neq_zero by (simp add: degrees_def radians_def)
  finally show ?thesis .
qed

lemma squaredNorm_ray_pos: "0 < squaredNorm (a, b, 1)"
proof -
  have "0 \<le> a * a + b * b" by simp
  then have "0 < a * a + b * b + 1" by linarith
  then show ?thesis by (simp add: squaredNorm_def)
qed

lemma vec3_normalize_unit:
  assumes "0 < squaredNorm v"
  shows "vec3_normalize v = spec_normalized v" and "squaredNorm (vec3_normalize v) = 1"
proof -
  obtain a b c where v: "v = (a, b, c)" by (cases v)
  let ?z = "squaredNorm v"
  have s: "sqrt ?z * sqrt ?z = ?z" using assms by simp
  have s0: "sqrt ?z \<noteq> 0" using assms by simp
  show "vec3_normalize v = spec_normalized v"
    using assms by (simp add: vec3_normalize_def spec_normalized_def vec3_scale_def v Let_def)
  have z: "a * a + b * b + c * c \<noteq> 0" using assms by (simp add: squaredNorm_def v)
  have "squaredNorm (vec3_normalize v) =
      a * a / (a * a + b * b + c * c) + b * b / (a * a + b * b + c * c) +
      c * c / (a * a + b * b + c * c)"
    using assms by (simp add: vec3_normalize_def Let_def v squaredNorm_def)
  also have "\<dots> = (a * a + b * b + c * c) / (a * a + b * b + c * c)"
    by (simp only: add_divide_distrib)
  also have "\<dots> = 1" using z by simp
  finally show "squaredNorm (vec3_normalize v) = 1" .
qed

lemma sqrt_9: "sqrt 9 = 3"
  by (rule real_sqrt_unique) simp_all

lemma sdiv_2_even:
  fixes w :: int
  assumes "even w"
  shows "real_of_int (w sdiv 2) = real_of_int w * 0.5"
proof -
  obtain k where k: "w = 2 * k" using assms by (auto elim: evenE)
  have "w sdiv 2 = k"
    by (cases "0 \<le> k") (simp_all add: signed_divide_int_def k sgn_if abs_mult)
  then show ?thesis by (simp add: k)
qed

lemma mat_vec_cols:
  "mat_vec m (a, b, 0) = vec3_add (vec3_scale a (col 0 m)) (vec3_scale b (col 1 m))"
  by (cases m rule: prod_cases3; cases "fst m"; cases "fst (snd m)"; cases "snd (snd m)")
     (simp add: mat_vec_def col_def vec3_add_def vec3_scale_def ac_simps)

lemma vec3_add_assoc: "vec3_add (vec3_add a b) c = vec3_add a (vec3_add b c)"
  by (cases a; cases b; cases c) (simp add: vec3_add_def)

lemma vec3_add_commute: "vec3_add a b = vec3_add b a"
  by (cases a; cases b) (simp add: vec3_add_def)

lemma vec3_add_left_commute: "vec3_add a (vec3_add b c) = vec3_add b (vec3_add a c)"
  by (cases a; cases b; cases c) (simp add: vec3_add_def)

lemmas vec3_add_ac = vec3_add_assoc vec3_add_commute vec3_add_left_commute

lemma ortho_origin_difference:
  "vec3_add (vec3_add t (vec3_scale (x2 - m) a)) (vec3_scale (y2 - n) b) =
   vec3_add (vec3_add (vec3_add (vec3_add t (vec3_scale (x1 - m) a)) (vec3_scale (y1 - n) b))
      (vec3_scale (x2 - x1) a)) (vec3_scale (y2 - y1) b)"
  by (cases t; cases a; cases b) (simp add: vec3_add_def vec3_scale_def algebra_simps)

section \<open>The renderer\<close>

lemma render_not_ready:
  "\<not> mesh_initialized r \<or> camera_ref r = None \<Longrightarrow> render pipeline r out = (False, out)"
  by (auto simp: render_def split: option.splits bool.splits)

lemma render_ready:
  assumes "mesh_initialized r" "mesh_ref r = Some m" "camera_ref r = Some cam"
  shows "\<exists>color depth mask. render pipeline r out = (True, color, depth, mask) \<and>
     image_width color = camera_width cam \<and> image_height color = camera_height cam \<and>
     image_width depth = camera_width cam \<and> image_height depth = camera_height cam \<and>
     image_width mask = camera_width cam \<and> image_height mask = camera_height cam \<and>
     length (image_data color) = nat (camera_width cam * camera_height cam) \<and>
     length (image_data depth) = nat (camera_width cam * camera_height cam) \<and>
     length (image_data mask) = nat (camera_width cam * camera_height cam) \<and>
     (\<forall>x\<in>{0 ..< camera_width cam}. \<forall>y\<in>{0 ..< camera_height cam}.
        image_at color x y =
          Some (case pipeline cam m (option_val r) x y of None \<Rightarrow> (0, 0, 0) | Some (rgb, d) \<Rightarrow> rgb) \<and>
        image_at depth x y =
          Some (case pipeline cam m (option_val r) x y of None \<Rightarrow> 0 | Some (rgb, d) \<Rightarrow> d) \<and>
        image_at mask x y =
          Some (case pipeline cam m (option_val r) x y of None \<Rightarrow> 0 | Some (rgb, d) \<Rightarrow> 1))"
proof -
  let ?w = "camera_width cam" and ?h = "camera_height cam"
  have cell: "0 \<le> y * ?w + x \<and> y * ?w + x < ?w * ?h \<and>
      (y * ?w + x) mod ?w = x \<and> (y * ?w + x) div ?w = y"
    if "x \<in> {0 ..< ?w}" "y \<in> {0 ..< ?h}" for x y
    using that cell_index_bounds [of x ?w y ?h] by simp
  show ?thesis
    using assms cell
    by (simp add: render_def Let_def image_at_def)
qed

section \<open>Projection and back-projection\<close>

text \<open>
  C2. For a pinhole camera whose two focal-length channels are nonzero and a camera-space
  point \<open>p\<close> with positive \<open>z\<close>: \<^verbatim>\<open>Project\<close> gives an image point and the depth
  \<open>d = p.z\<close>, and \<^verbatim>\<open>Unproject\<close> of that image point at that depth gives \<open>p\<close> back,
  exactly over the reals. The same holds for the overloads that carry the depth as the
  third coordinate of the image point.
\<close>

theorem Project_Unproject_roundtrip:
  assumes "fst (focal_length c) \<noteq> 0" and "snd (focal_length c) \<noteq> 0"
    and "0 < snd (snd p)"
  shows "(case PinholeCamera_Project_2f_d c p of
            (image_p, d) \<Rightarrow> d = snd (snd p) \<and> PinholeCamera_Unproject_2f_d c image_p d = p) \<and>
         PinholeCamera_Unproject_3f c (PinholeCamera_Project_3f c p) = p"
  using assms
  by (cases p) (simp add: PinholeCamera_Unproject_2f_d_def PinholeCamera_Project_2f_d_def
      PinholeCamera_Unproject_3f_def PinholeCamera_Project_3f_def)

theorem Project_Unproject_roundtrip_witness:
  "\<exists>c. PinholeCamera_new 4 3 affine3_Identity (3 / 2, 1) (2, 5) = Inr c \<and>
     PinholeCamera_Project_2f_d c (1, 2, 4) = ((2, 7 / 2), 4) \<and>
     PinholeCamera_Unproject_2f_d c (2, 7 / 2) 4 = (1, 2, 4) \<and>
     PinholeCamera_Unproject_3f c (PinholeCamera_Project_3f c (1, 2, 4)) = (1, 2, 4)"
proof -
  obtain c where new: "PinholeCamera_new 4 3 affine3_Identity (3 / 2, 1) (2, 5) = Inr c"
    and pp: "principal_point c = (3 / 2, 1)" and fl: "focal_length c = (2, 5)"
    using PinholeCamera_new_ok [of 4 3 affine3_Identity "(3 / 2, 1)" "(2, 5)"] by auto
  have f: "fst (focal_length c) \<noteq> 0" "snd (focal_length c) \<noteq> 0" by (simp_all add: fl)
  have z: "0 < snd (snd (1 :: real, 2 :: real, 4 :: real))" by simp
  have img: "PinholeCamera_Project_2f_d c (1, 2, 4) = ((2, 7 / 2), 4)"
    by (simp add: PinholeCamera_Project_2f_d_def pp fl)
  show ?thesis
    using Project_Unproject_roundtrip [OF f z] new img by simp
qed

text \<open>
  C3. For a pinhole camera and a camera-space point \<open>p\<close> with positive \<open>z\<close>, every overload
  of \<^verbatim>\<open>Project\<close> computes the image point \<open>focal_length \<odot> (p.x, p.y) / p.z +
  principal_point\<close>, the two overloads that report a depth report \<open>p.z\<close>, and both overloads
  of \<^verbatim>\<open>Unproject\<close> compute \<open>((u - cx) * d / fx, (v - cy) * d / fy, d)\<close>. No overload
  has a branch on \<open>p.z\<close>.
\<close>

theorem Project_Unproject_formulas:
  assumes "0 < snd (snd p)"
  shows "PinholeCamera_Project_2f c p = spec_project (focal_length c) (principal_point c) p \<and>
    PinholeCamera_Project_2f_d c p =
      (spec_project (focal_length c) (principal_point c) p, snd (snd p)) \<and>
    PinholeCamera_Project_3f c p =
      (fst (spec_project (focal_length c) (principal_point c) p),
       snd (spec_project (focal_length c) (principal_point c) p), snd (snd p)) \<and>
    PinholeCamera_Unproject_2f_d c img d =
      spec_unproject (focal_length c) (principal_point c) img d \<and>
    PinholeCamera_Unproject_3f c (fst img, snd img, d) =
      spec_unproject (focal_length c) (principal_point c) img d"
  by (cases p; cases img)
     (simp add: PinholeCamera_Unproject_2f_d_def PinholeCamera_Project_2f_d_def
      PinholeCamera_Unproject_3f_def PinholeCamera_Project_3f_def PinholeCamera_Project_2f_def
      spec_project_def spec_unproject_def)

theorem Project_Unproject_formulas_witness:
  "\<exists>c. PinholeCamera_new 4 3 affine3_Identity (3 / 2, 1) (2, 5) = Inr c \<and>
     PinholeCamera_Project_2f c (1, 2, 4) = (2, 7 / 2) \<and>
     PinholeCamera_Project_2f_d c (1, 2, 4) = ((2, 7 / 2), 4) \<and>
     PinholeCamera_Project_3f c (1, 2, 4) = (2, 7 / 2, 4) \<and>
     PinholeCamera_Unproject_2f_d c (2, 7 / 2) 4 = (1, 2, 4) \<and>
     PinholeCamera_Unproject_3f c (2, 7 / 2, 4) = (1, 2, 4)"
proof -
  obtain c where new: "PinholeCamera_new 4 3 affine3_Identity (3 / 2, 1) (2, 5) = Inr c"
    and pp: "principal_point c = (3 / 2, 1)" and fl: "focal_length c = (2, 5)"
    using PinholeCamera_new_ok [of 4 3 affine3_Identity "(3 / 2, 1)" "(2, 5)"] by auto
  have z: "0 < snd (snd (1 :: real, 2 :: real, 4 :: real))" by simp
  show ?thesis
    using Project_Unproject_formulas [OF z, of c "(2, 7 / 2)" 4] new
    by (simp add: spec_project_def spec_unproject_def pp fl)
qed

section \<open>Field of view\<close>

text \<open>
  C6. For a pinhole camera with positive width and height and an angle \<open>\<theta>\<close> with
  \<open>0 < \<theta> < 180\<close> degrees: \<^verbatim>\<open>set_fov_y(\<theta>)\<close> returns and \<^verbatim>\<open>fov_y()\<close> then reads exactly
  \<open>\<theta>\<close>; likewise \<^verbatim>\<open>set_fov_x(\<theta>)\<close> and \<^verbatim>\<open>fov_x()\<close>.
\<close>

theorem fov_set_then_get:
  assumes "0 < width c" and "0 < height c" and "width c * height c < 2 ^ 31"
    and "0 < fov_deg" and "fov_deg < 180"
  shows "(\<exists>c'. PinholeCamera_set_fov_y fov_deg c = Inr c' \<and> PinholeCamera_fov_y c' = fov_deg) \<and>
         (\<exists>c'. PinholeCamera_set_fov_x fov_deg c = Inr c' \<and> PinholeCamera_fov_x c' = fov_deg)"
proof -
  have n: "0 \<le> width c * height c" using assms(1,2) by simp
  have w: "real_of_int (width c) \<noteq> 0" and h: "real_of_int (height c) \<noteq> 0"
    using assms(1,2) by simp_all
  show ?thesis
  proof
    from PinholeCamera_set_fov_y_ok [OF n assms(3), of fov_deg]
    show "\<exists>c'. PinholeCamera_set_fov_y fov_deg c = Inr c' \<and> PinholeCamera_fov_y c' = fov_deg"
      using fov_roundtrip [OF h assms(4,5)] by (auto simp: PinholeCamera_fov_y_def)
  next
    from PinholeCamera_set_fov_x_ok [OF n assms(3), of fov_deg]
    show "\<exists>c'. PinholeCamera_set_fov_x fov_deg c = Inr c' \<and> PinholeCamera_fov_x c' = fov_deg"
      using fov_roundtrip [OF w assms(4,5)] by (auto simp: PinholeCamera_fov_x_def)
  qed
qed

theorem fov_set_then_get_witness:
  "\<exists>c cy cx. PinholeCamera_new 640 480 affine3_Identity (639 / 2, 479 / 2) (500, 500) = Inr c \<and>
     PinholeCamera_set_fov_y 60 c = Inr cy \<and> PinholeCamera_fov_y cy = 60 \<and>
     PinholeCamera_set_fov_x 60 c = Inr cx \<and> PinholeCamera_fov_x cx = 60"
proof -
  obtain c where new: "PinholeCamera_new 640 480 affine3_Identity (639 / 2, 479 / 2) (500, 500) = Inr c"
    and w: "width c = 640" and h: "height c = 480"
    using PinholeCamera_new_ok [of 640 480 affine3_Identity "(639 / 2, 479 / 2)" "(500, 500)"]
    by auto
  have "0 < width c" "0 < height c" "width c * height c < 2 ^ 31" "(0 :: real) < 60" "(60 :: real) < 180"
    by (simp_all add: w h)
  from fov_set_then_get [OF this] new show ?thesis by blast
qed

text \<open>
  C10. After a call of \<^verbatim>\<open>set_fov_x\<close> or of \<^verbatim>\<open>set_fov_y\<close> that returns, with an angle
  for which the divisor, the tangent of half the angle, is nonzero, the two focal-length
  channels are equal, both the quotient of half the extent by that tangent. (With a zero
  divisor the program divides by zero; for a zero extent the quotient is then a NaN, which
  is not equal to itself.)
\<close>

theorem set_fov_square_pixels:
  "(tan (radians fov_x_deg * 0.5) \<noteq> 0 \<longrightarrow>
      (\<forall>c'. PinholeCamera_set_fov_x fov_x_deg c = Inr c' \<longrightarrow>
         fst (focal_length c') = snd (focal_length c') \<and>
         fst (focal_length c') = of_int (width c) * 0.5 / tan (radians fov_x_deg * 0.5))) \<and>
   (tan (radians fov_y_deg * 0.5) \<noteq> 0 \<longrightarrow>
      (\<forall>c'. PinholeCamera_set_fov_y fov_y_deg c = Inr c' \<longrightarrow>
         fst (focal_length c') = snd (focal_length c') \<and>
         snd (focal_length c') = of_int (height c) * 0.5 / tan (radians fov_y_deg * 0.5)))"
proof (intro conjI allI impI)
  fix c' assume "PinholeCamera_set_fov_x fov_x_deg c = Inr c'"
  then show "fst (focal_length c') = snd (focal_length c')"
    "fst (focal_length c') = of_int (width c) * 0.5 / tan (radians fov_x_deg * 0.5)"
    unfolding PinholeCamera_set_fov_x_def Let_def
    by (auto dest!: PinholeCamera_InitRayTable_fields)
next
  fix c' assume "PinholeCamera_set_fov_y fov_y_deg c = Inr c'"
  then show "fst (focal_length c') = snd (focal_length c')"
    "snd (focal_length c') = of_int (height c) * 0.5 / tan (radians fov_y_deg * 0.5)"
    unfolding PinholeCamera_set_fov_y_def Let_def
    by (auto dest!: PinholeCamera_InitRayTable_fields)
qed

theorem set_fov_square_pixels_witness:
  "\<exists>c cx cy. PinholeCamera_new 640 480 affine3_Identity (639 / 2, 479 / 2) (500, 400) = Inr c \<and>
     PinholeCamera_set_fov_x 90 c = Inr cx \<and> fst (focal_length cx) = snd (focal_length cx) \<and>
     fst (focal_length cx) = 320 \<and>
     PinholeCamera_set_fov_y 90 c = Inr cy \<and> fst (focal_length cy) = snd (focal_length cy) \<and>
     snd (focal_length cy) = 240"
proof -
  obtain c where new: "PinholeCamera_new 640 480 affine3_Identity (639 / 2, 479 / 2) (500, 400) = Inr c"
    and w: "width c = 640" and h: "height c = 480"
    using PinholeCamera_new_ok [of 640 480 affine3_Identity "(639 / 2, 479 / 2)" "(500, 400)"]
    by auto
  have pre: "0 \<le> width c * height c" "width c * height c < 2 ^ 31"
    by (simp_all add: w h)
  obtain cx where cx: "PinholeCamera_set_fov_x 90 c = Inr cx"
    using PinholeCamera_set_fov_x_ok [OF pre, of 90] by auto
  obtain cy where cy: "PinholeCamera_set_fov_y 90 c = Inr cy"
    using PinholeCamera_set_fov_y_ok [OF pre, of 90] by auto
  have a: "radians 90 * 0.5 = pi / 4" by (simp add: radians_def)
  have t: "tan (radians 90 * 0.5) = 1" unfolding a by (rule tan_45)
  then have nz: "tan (radians 90 * 0.5) \<noteq> 0" by simp
  from set_fov_square_pixels [of 90 c 90] nz cx cy
  have "fst (focal_length cx) = snd (focal_length cx)"
    "fst (focal_length cx) = of_int (width c) * 0.5 / tan (radians 90 * 0.5)"
    "fst (focal_length cy) = snd (focal_length cy)"
    "snd (focal_length cy) = of_int (height c) * 0.5 / tan (radians 90 * 0.5)"
    by blast+
  then have "fst (focal_length cx) = snd (focal_length cx)" "fst (focal_length cx) = 320"
    "fst (focal_length cy) = snd (focal_length cy)" "snd (focal_length cy) = 240"
    unfolding t by (simp_all add: w h)
  with new cx cy show ?thesis by blast
qed

section \<open>Rays\<close>

text \<open>
  C4. For a pinhole camera whose cached pose fields agree with its pose and whose two
  focal-length channels are nonzero, at every coordinate \<open>(x, y)\<close>: \<^verbatim>\<open>org_ray_c\<close> is the
  origin \<open>(0, 0, 0)\<close>; \<^verbatim>\<open>org_ray_w\<close> is the translation of the pose; \<^verbatim>\<open>ray_c\<close> is the
  vector \<open>((x - cx) / fx, (y - cy) / fy, 1)\<close> scaled to length one; \<^verbatim>\<open>ray_w\<close> is the
  rotation of the pose applied to \<^verbatim>\<open>ray_c\<close>. When the camera is as \<^verbatim>\<open>InitRayTable\<close>
  has left it (every constructor and every setter ends with that call), the four lookups
  at a pixel \<open>(i, j)\<close> of the image return these values at \<open>(i, j)\<close>.
\<close>

theorem PinholeCamera_rays:
  assumes "pose_cached c"
    and "fst (focal_length c) \<noteq> 0" and "snd (focal_length c) \<noteq> 0"
  shows "PinholeCamera_org_ray_c c x y = (0, 0, 0) \<and>
    PinholeCamera_org_ray_w c x y = translation (c2w c) \<and>
    PinholeCamera_ray_c c x y =
      spec_normalized ((x - fst (principal_point c)) / fst (focal_length c),
                       (y - snd (principal_point c)) / snd (focal_length c), 1) \<and>
    squaredNorm (PinholeCamera_ray_c c x y) = 1 \<and>
    PinholeCamera_ray_w c x y = mat_vec (linear (c2w c)) (PinholeCamera_ray_c c x y) \<and>
    (PinholeCamera_InitRayTable c0 = Inr c \<and> 0 \<le> i \<and> i < width c \<and> 0 \<le> j \<and> j < height c \<longrightarrow>
       PinholeCamera_org_ray_c_int c i j = Some (0, 0, 0) \<and>
       PinholeCamera_org_ray_w_int c i j = Some (translation (c2w c)) \<and>
       PinholeCamera_ray_c_int c i j =
         Some (spec_normalized ((of_int i - fst (principal_point c)) / fst (focal_length c),
                                (of_int j - snd (principal_point c)) / snd (focal_length c), 1)) \<and>
       PinholeCamera_ray_w_int c i j =
         Some (mat_vec (linear (c2w c))
                 (spec_normalized ((of_int i - fst (principal_point c)) / fst (focal_length c),
                                   (of_int j - snd (principal_point c)) / snd (focal_length c), 1))))"
proof -
  have n1: "vec3_normalize (a, b, 1) = spec_normalized (a, b, 1)" for a b
    by (rule vec3_normalize_unit(1) [OF squaredNorm_ray_pos])
  have n2: "squaredNorm (spec_normalized (a, b, 1)) = 1" for a b
    using vec3_normalize_unit(2) [OF squaredNorm_ray_pos, of a b] by (simp only: n1)
  have pose: "c2w_t_f c = translation (c2w c)" "c2w_R_f c = linear (c2w c)"
    using assms(1) by (simp_all add: pose_cached_def)
  have cont: "PinholeCamera_org_ray_c c x y = (0, 0, 0) \<and>
    PinholeCamera_org_ray_w c x y = translation (c2w c) \<and>
    PinholeCamera_ray_c c x y =
      spec_normalized ((x - fst (principal_point c)) / fst (focal_length c),
                       (y - snd (principal_point c)) / snd (focal_length c), 1) \<and>
    squaredNorm (PinholeCamera_ray_c c x y) = 1 \<and>
    PinholeCamera_ray_w c x y = mat_vec (linear (c2w c)) (PinholeCamera_ray_c c x y)"
    by (simp add: PinholeCamera_accessor_defs pose n1 n2)
  have disc: "PinholeCamera_org_ray_c_int c i j = Some (0, 0, 0) \<and>
       PinholeCamera_org_ray_w_int c i j = Some (translation (c2w c)) \<and>
       PinholeCamera_ray_c_int c i j =
         Some (spec_normalized ((of_int i - fst (principal_point c)) / fst (focal_length c),
                                (of_int j - snd (principal_point c)) / snd (focal_length c), 1)) \<and>
       PinholeCamera_ray_w_int c i j =
         Some (mat_vec (linear (c2w c))
                 (spec_normalized ((of_int i - fst (principal_point c)) / fst (focal_length c),
                                   (of_int j - snd (principal_point c)) / snd (focal_length c), 1)))"
    if built: "PinholeCamera_InitRayTable c0 = Inr c"
      and px: "0 \<le> i" "i < width c" "0 \<le> j" "j < height c"
  proof -
    have "PinholeCamera_tables_consistent c"
      using built by (rule PinholeCamera_InitRayTable_result)
    then have "PinholeCamera_org_ray_c_int c i j = Some (PinholeCamera_org_ray_c c (of_int i) (of_int j))"
      "PinholeCamera_org_ray_w_int c i j = Some (PinholeCamera_org_ray_w c (of_int i) (of_int j))"
      "PinholeCamera_ray_c_int c i j = Some (PinholeCamera_ray_c c (of_int i) (of_int j))"
      "PinholeCamera_ray_w_int c i j = Some (PinholeCamera_ray_w c (of_int i) (of_int j))"
      using px unfolding PinholeCamera_tables_consistent_def by simp_all
    then show ?thesis
      by (simp add: PinholeCamera_accessor_defs pose n1)
  qed
  show ?thesis
    by (intro conjI impI) (use cont disc in blast)+
qed

theorem PinholeCamera_rays_witness:
  "\<exists>c. PinholeCamera_new 3 2
          \<lparr>linear = ((0, 0, 1), (1, 0, 0), (0, 1, 0)), translation = (5, 6, 7)\<rparr>
          (1, 0) (1 / 2, 1 / 2) = Inr c \<and>
     PinholeCamera_org_ray_c c 2 1 = (0, 0, 0) \<and>
     PinholeCamera_org_ray_w c 2 1 = (5, 6, 7) \<and>
     PinholeCamera_ray_c c 2 1 = (2 / 3, 2 / 3, 1 / 3) \<and>
     squaredNorm (PinholeCamera_ray_c c 2 1) = 1 \<and>
     PinholeCamera_ray_w c 2 1 = (1 / 3, 2 / 3, 2 / 3) \<and>
     PinholeCamera_org_ray_c_int c 2 1 = Some (0, 0, 0) \<and>
     PinholeCamera_org_ray_w_int c 2 1 = Some (5, 6, 7) \<and>
     PinholeCamera_ray_c_int c 2 1 = Some (2 / 3, 2 / 3, 1 / 3) \<and>
     PinholeCamera_ray_w_int c 2 1 = Some (1 / 3, 2 / 3, 2 / 3)"
proof -
  let ?p = "\<lparr>linear = ((0, 0, 1), (1, 0, 0), (0, 1, 0)),
            translation = (5 :: real, 6 :: real, 7 :: real)\<rparr>"
  obtain c where new: "PinholeCamera_new 3 2 ?p (1, 0) (1 / 2, 1 / 2) = Inr c"
    and c: "width c = 3" "height c = 2" "c2w c = ?p"
      "principal_point c = (1, 0)" "focal_length c = (1 / 2, 1 / 2)"
    and pose: "pose_cached c"
    using PinholeCamera_new_ok [of 3 2 ?p "(1, 0)" "(1 / 2, 1 / 2)"] by auto
  have fl: "fst (focal_length c) \<noteq> 0" "snd (focal_length c) \<noteq> 0"
    by (simp_all add: c)
  have px: "(0 :: int) \<le> 2 \<and> 2 < width c \<and> (0 :: int) \<le> 1 \<and> 1 < height c"
    by (simp add: c)
  have dir: "spec_normalized ((2 - fst (principal_point c)) / fst (focal_length c),
      (1 - snd (principal_point c)) / snd (focal_length c), 1) = (2 / 3, 2 / 3, 1 / 3)"
    by (simp add: c spec_normalized_def squaredNorm_def vec3_scale_def sqrt_9)
  have rot: "mat_vec (linear (c2w c)) (2 / 3, 2 / 3, 1 / 3) = (1 / 3, 2 / 3, 2 / 3)"
    by (simp add: c mat_vec_def)
  from PinholeCamera_rays [OF pose fl, of 2 1 _ 2 1] new [unfolded PinholeCamera_new_def] px
  have r: "PinholeCamera_org_ray_c c 2 1 = (0, 0, 0)"
    "PinholeCamera_org_ray_w c 2 1 = translation (c2w c)"
    "PinholeCamera_ray_c c 2 1 =
      spec_normalized ((2 - fst (principal_point c)) / fst (focal_length c),
                       (1 - snd (principal_point c)) / snd (focal_length c), 1)"
    "squaredNorm (PinholeCamera_ray_c c 2 1) = 1"
    "PinholeCamera_ray_w c 2 1 = mat_vec (linear (c2w c)) (PinholeCamera_ray_c c 2 1)"
    "PinholeCamera_org_ray_c_int c 2 1 = Some (0, 0, 0)"
    "PinholeCamera_org_ray_w_int c 2 1 = Some (translation (c2w c))"
    "PinholeCamera_ray_c_int c 2 1 =
       Some (spec_normalized ((of_int 2 - fst (principal_point c)) / fst (focal_length c),
                              (of_int 1 - snd (principal_point c)) / snd (focal_length c), 1))"
    "PinholeCamera_ray_w_int c 2 1 =
       Some (mat_vec (linear (c2w c))
               (spec_normalized ((of_int 2 - fst (principal_point c)) / fst (focal_length c),
                                 (of_int 1 - snd (principal_point c)) / snd (focal_length c), 1)))"
    by blast+
  have v: "PinholeCamera_org_ray_w c 2 1 = (5, 6, 7)"
    "PinholeCamera_ray_c c 2 1 = (2 / 3, 2 / 3, 1 / 3)"
    "PinholeCamera_org_ray_w_int c 2 1 = Some (5, 6, 7)"
    "PinholeCamera_ray_c_int c 2 1 = Some (2 / 3, 2 / 3, 1 / 3)"
    using r(2,3,7,8) dir by (simp_all add: c)
  have w: "PinholeCamera_ray_w c 2 1 = (1 / 3, 2 / 3, 2 / 3)"
    "PinholeCamera_ray_w_int c 2 1 = Some (1 / 3, 2 / 3, 2 / 3)"
    using r(5,9) v(2) dir rot by simp_all
  show ?thesis
    using new r(1,4,6) v w by blast
qed

text \<open>
  C5. For an orthographic camera whose cached pose fields agree with its pose, and two
  coordinates \<open>(x1, y1)\<close> and \<open>(x2, y2)\<close>: the ray directions are the same, \<open>(0, 0, 1)\<close> in the
  camera frame and the third column of the pose's rotation in the world frame; each
  world-frame origin is the translation of the pose plus \<open>(x - width / 2)\<close> times the first
  column plus \<open>(y - height / 2)\<close> times the second column; and the two origins differ by
  \<open>(x2 - x1)\<close> times the first column plus \<open>(y2 - y1)\<close> times the second. When the camera
  is as \<^verbatim>\<open>InitRayTable\<close> has left it (every constructor and every setter ends with
  that call), the lookups at two pixels of the image return these directions and origins.
\<close>

theorem OrthoCamera_parallel_rays:
  assumes "pose_cached c"
  shows "OrthoCamera_ray_c c x1 y1 = (0, 0, 1) \<and> OrthoCamera_ray_c c x2 y2 = (0, 0, 1) \<and>
    OrthoCamera_ray_w c x1 y1 = col 2 (linear (c2w c)) \<and>
    OrthoCamera_ray_w c x2 y2 = col 2 (linear (c2w c)) \<and>
    OrthoCamera_org_ray_w c x1 y1 =
      vec3_add (vec3_add (translation (c2w c))
        (vec3_scale (x1 - of_int (width c) / 2) (col 0 (linear (c2w c)))))
        (vec3_scale (y1 - of_int (height c) / 2) (col 1 (linear (c2w c)))) \<and>
    OrthoCamera_org_ray_w c x2 y2 =
      vec3_add (vec3_add (OrthoCamera_org_ray_w c x1 y1)
        (vec3_scale (x2 - x1) (col 0 (linear (c2w c)))))
        (vec3_scale (y2 - y1) (col 1 (linear (c2w c)))) \<and>
    (OrthoCamera_InitRayTable c0 = Inr c \<and> 0 \<le> i1 \<and> i1 < width c \<and> 0 \<le> j1 \<and> j1 < height c \<and>
       0 \<le> i2 \<and> i2 < width c \<and> 0 \<le> j2 \<and> j2 < height c \<longrightarrow>
      OrthoCamera_ray_c_int c i1 j1 = Some (0, 0, 1) \<and>
      OrthoCamera_ray_c_int c i2 j2 = Some (0, 0, 1) \<and>
      OrthoCamera_ray_w_int c i1 j1 = Some (col 2 (linear (c2w c))) \<and>
      OrthoCamera_ray_w_int c i2 j2 = Some (col 2 (linear (c2w c))) \<and>
      OrthoCamera_org_ray_w_int c i1 j1 =
        Some (vec3_add (vec3_add (translation (c2w c))
          (vec3_scale (of_int i1 - of_int (width c) / 2) (col 0 (linear (c2w c)))))
          (vec3_scale (of_int j1 - of_int (height c) / 2) (col 1 (linear (c2w c))))) \<and>
      (\<exists>o1 o2. OrthoCamera_org_ray_w_int c i1 j1 = Some o1 \<and>
         OrthoCamera_org_ray_w_int c i2 j2 = Some o2 \<and>
         o2 = vec3_add (vec3_add o1
                (vec3_scale (of_int (i2 - i1)) (col 0 (linear (c2w c)))))
                (vec3_scale (of_int (j2 - j1)) (col 1 (linear (c2w c))))))"
proof -
  have pose: "c2w_t_f c = translation (c2w c)" "x_direc c = col 0 (linear (c2w c))"
    "y_direc c = col 1 (linear (c2w c))" "z_direc c = col 2 (linear (c2w c))"
    using assms by (simp_all add: pose_cached_def)
  have org: "OrthoCamera_org_ray_w c x y =
      vec3_add (vec3_add (translation (c2w c))
        (vec3_scale (x - of_int (width c) / 2) (col 0 (linear (c2w c)))))
        (vec3_scale (y - of_int (height c) / 2) (col 1 (linear (c2w c))))" for x y
    by (simp add: OrthoCamera_org_ray_w_def pose)
  have diff: "OrthoCamera_org_ray_w c x2 y2 =
      vec3_add (vec3_add (OrthoCamera_org_ray_w c x1 y1)
        (vec3_scale (x2 - x1) (col 0 (linear (c2w c)))))
        (vec3_scale (y2 - y1) (col 1 (linear (c2w c))))" for x1 y1 x2 y2
    unfolding org by (rule ortho_origin_difference)
  have dir: "OrthoCamera_ray_c c x y = (0, 0, 1)" "OrthoCamera_ray_w c x y = col 2 (linear (c2w c))"
    for x y
    by (simp_all add: OrthoCamera_ray_c_def OrthoCamera_ray_w_def pose)
  have disc: "OrthoCamera_ray_c_int c i1 j1 = Some (0, 0, 1) \<and>
      OrthoCamera_ray_c_int c i2 j2 = Some (0, 0, 1) \<and>
      OrthoCamera_ray_w_int c i1 j1 = Some (col 2 (linear (c2w c))) \<and>
      OrthoCamera_ray_w_int c i2 j2 = Some (col 2 (linear (c2w c))) \<and>
      OrthoCamera_org_ray_w_int c i1 j1 =
        Some (vec3_add (vec3_add (translation (c2w c))
          (vec3_scale (of_int i1 - of_int (width c) / 2) (col 0 (linear (c2w c)))))
          (vec3_scale (of_int j1 - of_int (height c) / 2) (col 1 (linear (c2w c))))) \<and>
      (\<exists>o1 o2. OrthoCamera_org_ray_w_int c i1 j1 = Some o1 \<and>
         OrthoCamera_org_ray_w_int c i2 j2 = Some o2 \<and>
         o2 = vec3_add (vec3_add o1
                (vec3_scale (of_int (i2 - i1)) (col 0 (linear (c2w c)))))
                (vec3_scale (of_int (j2 - j1)) (col 1 (linear (c2w c)))))"
    if built: "OrthoCamera_InitRayTable c0 = Inr c"
      and p1: "0 \<le> i1" "i1 < width c" "0 \<le> j1" "j1 < height c"
      and p2: "0 \<le> i2" "i2 < width c" "0 \<le> j2" "j2 < height c"
  proof -
    have tabs: "OrthoCamera_tables_consistent c"
      using built by (rule OrthoCamera_InitRayTable_result)
    have t: "OrthoCamera_ray_c_int c i j = Some (OrthoCamera_ray_c c (of_int i) (of_int j))"
      "OrthoCamera_ray_w_int c i j = Some (OrthoCamera_ray_w c (of_int i) (of_int j))"
      "OrthoCamera_org_ray_w_int c i j = Some (OrthoCamera_org_ray_w c (of_int i) (of_int j))"
      if "0 \<le> i" "i < width c" "0 \<le> j" "j < height c" for i j
      using that tabs unfolding OrthoCamera_tables_consistent_def
      by simp_all
    have o1: "OrthoCamera_org_ray_w_int c i1 j1 =
        Some (vec3_add (vec3_add (translation (c2w c))
          (vec3_scale (of_int i1 - of_int (width c) / 2) (col 0 (linear (c2w c)))))
          (vec3_scale (of_int j1 - of_int (height c) / 2) (col 1 (linear (c2w c)))))"
      using t(3) [OF p1] org [of "of_int i1" "of_int j1"] by (simp only:)
    show ?thesis
      using t [OF p1] t [OF p2] o1
        diff [of "of_int i2" "of_int j2" "of_int i1" "of_int j1"]
      by (simp add: dir)
  qed
  show ?thesis
    by (intro conjI impI) (use org diff dir disc in blast)+
qed

theorem OrthoCamera_parallel_rays_witness:
  "\<exists>c. OrthoCamera_new 4 3 \<lparr>linear = ((0, 0, 1), (1, 0, 0), (0, 1, 0)), translation = (5, 6, 7)\<rparr> = Inr c \<and>
     OrthoCamera_ray_c c 0 0 = (0, 0, 1) \<and> OrthoCamera_ray_c c 3 2 = (0, 0, 1) \<and>
     OrthoCamera_ray_w c 0 0 = (1, 0, 0) \<and> OrthoCamera_ray_w c 3 2 = (1, 0, 0) \<and>
     OrthoCamera_org_ray_w c 0 0 = (5, 4, 11 / 2) \<and>
     OrthoCamera_org_ray_w c 3 2 = (5, 7, 15 / 2) \<and>
     OrthoCamera_ray_c_int c 0 0 = Some (0, 0, 1) \<and>
     OrthoCamera_ray_c_int c 3 2 = Some (0, 0, 1) \<and>
     OrthoCamera_ray_w_int c 0 0 = Some (1, 0, 0) \<and>
     OrthoCamera_ray_w_int c 3 2 = Some (1, 0, 0) \<and>
     OrthoCamera_org_ray_w_int c 0 0 = Some (5, 4, 11 / 2) \<and>
     OrthoCamera_org_ray_w_int c 3 2 = Some (5, 7, 15 / 2)"
proof -
  let ?p = "\<lparr>linear = ((0, 0, 1), (1, 0, 0), (0, 1, 0)),
            translation = (5 :: real, 6 :: real, 7 :: real)\<rparr>"
  obtain c where new: "OrthoCamera_new 4 3 ?p = Inr c"
    and c: "width c = 4" "height c = 3" "c2w c = ?p"
    and pose: "pose_cached c"
    using OrthoCamera_new_ok [of 4 3 ?p] by auto
  have px: "(0 :: int) \<le> 0 \<and> 0 < width c \<and> (0 :: int) \<le> 0 \<and>
      0 < height c \<and> (0 :: int) \<le> 3 \<and> 3 < width c \<and> (0 :: int) \<le> 2 \<and> 2 < height c"
    by (simp add: c)
  have cols: "col 0 (linear (c2w c)) = (0, 1, 0)" "col 1 (linear (c2w c)) = (0, 0, 1)"
    "col 2 (linear (c2w c)) = (1, 0, 0)"
    by (simp_all add: c col_def)
  from OrthoCamera_parallel_rays [OF pose, of 0 0 3 2 _ 0 0 3 2]
    new [unfolded OrthoCamera_new_def] px
  have r: "OrthoCamera_ray_c c 0 0 = (0, 0, 1)" "OrthoCamera_ray_c c 3 2 = (0, 0, 1)"
    "OrthoCamera_ray_w c 0 0 = col 2 (linear (c2w c))"
    "OrthoCamera_ray_w c 3 2 = col 2 (linear (c2w c))"
    "OrthoCamera_ray_c_int c 0 0 = Some (0, 0, 1)"
    "OrthoCamera_ray_c_int c 3 2 = Some (0, 0, 1)"
    "OrthoCamera_ray_w_int c 0 0 = Some (col 2 (linear (c2w c)))"
    "OrthoCamera_ray_w_int c 3 2 = Some (col 2 (linear (c2w c)))"
    and o1: "OrthoCamera_org_ray_w c 0 0 =
      vec3_add (vec3_add (translation (c2w c))
        (vec3_scale (0 - of_int (width c) / 2) (col 0 (linear (c2w c)))))
        (vec3_scale (0 - of_int (height c) / 2) (col 1 (linear (c2w c))))"
    and o2: "OrthoCamera_org_ray_w c 3 2 =
      vec3_add (vec3_add (OrthoCamera_org_ray_w c 0 0)
        (vec3_scale (3 - 0) (col 0 (linear (c2w c)))))
        (vec3_scale (2 - 0) (col 1 (linear (c2w c))))"
    and i1: "OrthoCamera_org_ray_w_int c 0 0 =
        Some (vec3_add (vec3_add (translation (c2w c))
          (vec3_scale (of_int 0 - of_int (width c) / 2) (col 0 (linear (c2w c)))))
          (vec3_scale (of_int 0 - of_int (height c) / 2) (col 1 (linear (c2w c)))))"
    and ex: "\<exists>o1 o2. OrthoCamera_org_ray_w_int c 0 0 = Some o1 \<and>
         OrthoCamera_org_ray_w_int c 3 2 = Some o2 \<and>
         o2 = vec3_add (vec3_add o1
                (vec3_scale (of_int (3 - 0)) (col 0 (linear (c2w c)))))
                (vec3_scale (of_int (2 - 0)) (col 1 (linear (c2w c))))"
    by blast+
  have v1: "OrthoCamera_org_ray_w c 0 0 = (5, 4, 11 / 2)"
    unfolding o1 cols by (simp add: c vec3_add_def vec3_scale_def)
  have v2: "OrthoCamera_org_ray_w c 3 2 = (5, 7, 15 / 2)"
    unfolding o2 v1 cols by (simp add: vec3_add_def vec3_scale_def)
  have w1: "OrthoCamera_org_ray_w_int c 0 0 = Some (5, 4, 11 / 2)"
    unfolding i1 cols by (simp add: c vec3_add_def vec3_scale_def)
  from ex w1 have w2: "OrthoCamera_org_ray_w_int c 3 2 = Some (5, 7, 15 / 2)"
    unfolding cols by (auto simp: vec3_add_def vec3_scale_def)
  show ?thesis
    using new r v1 v2 w1 w2 by (simp add: cols)
qed

text \<open>
  C9. For an orthographic camera with even width and even height whose cached pose fields
  agree with its pose, the world-frame ray origin is the pose applied to the camera-frame
  ray origin: \<open>org_ray_w (x, y) = R * org_ray_c (x, y) + t\<close>, at every coordinate and, when
  the tables are consistent, for the lookups at every pixel of the image.
\<close>

theorem OrthoCamera_origin_frames_agree:
  assumes "even (width c)" and "even (height c)" and "pose_cached c"
  shows "OrthoCamera_org_ray_w c x y =
      vec3_add (mat_vec (linear (c2w c)) (OrthoCamera_org_ray_c c x y)) (translation (c2w c)) \<and>
    (OrthoCamera_tables_consistent c \<and> 0 \<le> i \<and> i < width c \<and> 0 \<le> j \<and> j < height c \<longrightarrow>
      (\<exists>oc ow. OrthoCamera_org_ray_c_int c i j = Some oc \<and>
         OrthoCamera_org_ray_w_int c i j = Some ow \<and>
         ow = vec3_add (mat_vec (linear (c2w c)) oc) (translation (c2w c))))"
proof -
  have pose: "c2w_t_f c = translation (c2w c)" "x_direc c = col 0 (linear (c2w c))"
    "y_direc c = col 1 (linear (c2w c))"
    using assms(3) by (simp_all add: pose_cached_def)
  have cont: "OrthoCamera_org_ray_w c x y =
      vec3_add (mat_vec (linear (c2w c)) (OrthoCamera_org_ray_c c x y)) (translation (c2w c))"
    for x y
    by (simp add: OrthoCamera_org_ray_w_def OrthoCamera_org_ray_c_def pose mat_vec_cols
        sdiv_2_even [OF assms(1)] sdiv_2_even [OF assms(2)] vec3_add_ac)
  have disc: "\<exists>oc ow. OrthoCamera_org_ray_c_int c i j = Some oc \<and>
         OrthoCamera_org_ray_w_int c i j = Some ow \<and>
         ow = vec3_add (mat_vec (linear (c2w c)) oc) (translation (c2w c))"
    if "OrthoCamera_tables_consistent c" "0 \<le> i" "i < width c" "0 \<le> j" "j < height c"
  proof -
    have "OrthoCamera_org_ray_c_int c i j = Some (OrthoCamera_org_ray_c c (of_int i) (of_int j))"
      "OrthoCamera_org_ray_w_int c i j = Some (OrthoCamera_org_ray_w c (of_int i) (of_int j))"
      using that unfolding OrthoCamera_tables_consistent_def by simp_all
    then show ?thesis using cont [of "of_int i" "of_int j"] by simp
  qed
  show ?thesis
    by (intro conjI impI) (use cont disc in blast)+
qed

theorem OrthoCamera_origin_frames_agree_witness:
  "\<exists>c. OrthoCamera_new 4 2 \<lparr>linear = ((0, - 1, 0), (1, 0, 0), (0, 0, 1)), translation = (5, 6, 7)\<rparr> = Inr c \<and>
     OrthoCamera_org_ray_c c 3 0 = (1, - 1, 0) \<and>
     OrthoCamera_org_ray_w c 3 0 = (6, 7, 7) \<and>
     OrthoCamera_org_ray_c_int c 3 0 = Some (1, - 1, 0) \<and>
     OrthoCamera_org_ray_w_int c 3 0 = Some (6, 7, 7)"
proof -
  let ?p = "\<lparr>linear = ((0, - 1, 0), (1, 0, 0), (0, 0, 1)), translation = (5 :: real, 6 :: real, 7 :: real)\<rparr>"
  obtain c where new: "OrthoCamera_new 4 2 ?p = Inr c"
    and c: "width c = 4" "height c = 2" "c2w c = ?p"
    and pose: "pose_cached c" and tabs: "OrthoCamera_tables_consistent c"
    using OrthoCamera_new_ok [of 4 2 ?p] by auto
  have e: "even (width c)" "even (height c)" by (simp_all add: c)
  have oc: "OrthoCamera_org_ray_c c 3 0 = (1, - 1, 0)"
    by (simp add: OrthoCamera_org_ray_c_def c signed_divide_int_def)
  have pre: "OrthoCamera_tables_consistent c \<and> (0 :: int) \<le> 3 \<and> 3 < width c \<and> (0 :: int) \<le> 0 \<and> 0 < height c"
    using tabs by (simp add: c)
  have ci: "OrthoCamera_org_ray_c_int c 3 0 = Some (OrthoCamera_org_ray_c c 3 0)"
    using tabs unfolding OrthoCamera_tables_consistent_def by (simp add: c)
  from OrthoCamera_origin_frames_agree [OF e pose, of 3 0 3 0] pre
  have w: "OrthoCamera_org_ray_w c 3 0 =
      vec3_add (mat_vec (linear (c2w c)) (OrthoCamera_org_ray_c c 3 0)) (translation (c2w c))"
    and "\<exists>oc ow. OrthoCamera_org_ray_c_int c 3 0 = Some oc \<and>
         OrthoCamera_org_ray_w_int c 3 0 = Some ow \<and>
         ow = vec3_add (mat_vec (linear (c2w c)) oc) (translation (c2w c))"
    by blast+
  then have wi: "OrthoCamera_org_ray_w_int c 3 0 =
      Some (vec3_add (mat_vec (linear (c2w c)) (OrthoCamera_org_ray_c c 3 0)) (translation (c2w c)))"
    using ci by auto
  have v: "vec3_add (mat_vec (linear (c2w c)) (OrthoCamera_org_ray_c c 3 0)) (translation (c2w c)) = (6, 7, 7)"
    by (simp add: oc c mat_vec_def vec3_add_def)
  show ?thesis
    using new oc ci w wi v by simp
qed

section \<open>The tables after a mutation\<close>

text \<open>
  C1. After any mutation of a pinhole camera (\<^verbatim>\<open>set_size\<close>, \<^verbatim>\<open>set_c2w\<close>,
  \<^verbatim>\<open>set_principal_point\<close>, \<^verbatim>\<open>set_focal_length\<close>, \<^verbatim>\<open>set_fov_x\<close>, \<^verbatim>\<open>set_fov_y\<close>) or of
  an orthographic camera (\<^verbatim>\<open>set_size\<close>, \<^verbatim>\<open>set_c2w\<close>), each of the four tables has
  exactly \<open>width * height\<close> cells and, at every pixel \<open>(x, y)\<close> with \<open>0 \<le> x < width\<close> and
  \<open>0 \<le> y < height\<close>, each lookup returns the value the continuous accessor computes at
  \<open>(x, y)\<close> on the camera as it is after the mutation; a pose change after a resize leaves
  the tables at the new size. The mutation returns when the product \<open>width * height\<close> it
  rebuilds the tables for is non-negative and an \<^verbatim>\<open>int\<close>.
\<close>

theorem tables_consistent_after_mutation:
  fixes c :: pinhole_camera and oc :: ortho_camera
  shows
   "(0 \<le> w * h \<and> w * h < 2 ^ 31 \<longrightarrow>
      (\<exists>c'. PinholeCamera_set_size w h c = Inr c' \<and> width c' = w \<and> height c' = h \<and>
         PinholeCamera_tables_consistent c') \<and>
      (\<exists>c1 c2. PinholeCamera_set_size w h c = Inr c1 \<and> PinholeCamera_set_c2w p c1 = Inr c2 \<and>
         width c2 = w \<and> height c2 = h \<and> c2w c2 = p \<and> PinholeCamera_tables_consistent c2) \<and>
      (\<exists>c'. OrthoCamera_set_size w h oc = Inr c' \<and> width c' = w \<and> height c' = h \<and>
         OrthoCamera_tables_consistent c') \<and>
      (\<exists>c1 c2. OrthoCamera_set_size w h oc = Inr c1 \<and> OrthoCamera_set_c2w p c1 = Inr c2 \<and>
         width c2 = w \<and> height c2 = h \<and> c2w c2 = p \<and> OrthoCamera_tables_consistent c2)) \<and>
    (0 \<le> width c * height c \<and> width c * height c < 2 ^ 31 \<longrightarrow>
      (\<exists>c'. PinholeCamera_set_c2w p c = Inr c' \<and> width c' = width c \<and> height c' = height c \<and>
         c2w c' = p \<and> PinholeCamera_tables_consistent c') \<and>
      (\<exists>c'. PinholeCamera_set_principal_point pp c = Inr c' \<and> width c' = width c \<and>
         height c' = height c \<and> principal_point c' = pp \<and> PinholeCamera_tables_consistent c') \<and>
      (\<exists>c'. PinholeCamera_set_focal_length fl c = Inr c' \<and> width c' = width c \<and>
         height c' = height c \<and> focal_length c' = fl \<and> PinholeCamera_tables_consistent c') \<and>
      (\<exists>c'. PinholeCamera_set_fov_x a c = Inr c' \<and> width c' = width c \<and>
         height c' = height c \<and> PinholeCamera_tables_consistent c') \<and>
      (\<exists>c'. PinholeCamera_set_fov_y a c = Inr c' \<and> width c' = width c \<and>
         height c' = height c \<and> PinholeCamera_tables_consistent c')) \<and>
    (0 \<le> width oc * height oc \<and> width oc * height oc < 2 ^ 31 \<longrightarrow>
      (\<exists>c'. OrthoCamera_set_c2w p oc = Inr c' \<and> width c' = width oc \<and> height c' = height oc \<and>
         c2w c' = p \<and> OrthoCamera_tables_consistent c'))"
proof (intro conjI impI; elim conjE)
  assume n: "0 \<le> w * h" "w * h < 2 ^ 31"
  show "\<exists>c'. PinholeCamera_set_size w h c = Inr c' \<and> width c' = w \<and> height c' = h \<and>
         PinholeCamera_tables_consistent c'"
    using PinholeCamera_set_size_ok [OF n, of c] by blast
  show "\<exists>c1 c2. PinholeCamera_set_size w h c = Inr c1 \<and> PinholeCamera_set_c2w p c1 = Inr c2 \<and>
         width c2 = w \<and> height c2 = h \<and> c2w c2 = p \<and> PinholeCamera_tables_consistent c2"
  proof -
    obtain c1 where c1: "PinholeCamera_set_size w h c = Inr c1" "width c1 = w" "height c1 = h"
      using PinholeCamera_set_size_ok [OF n, of c] by blast
    have "0 \<le> width c1 * height c1" "width c1 * height c1 < 2 ^ 31" using n c1 by simp_all
    from PinholeCamera_set_c2w_ok [OF this, of p] c1 show ?thesis by auto
  qed
  show "\<exists>c'. OrthoCamera_set_size w h oc = Inr c' \<and> width c' = w \<and> height c' = h \<and>
         OrthoCamera_tables_consistent c'"
    using OrthoCamera_set_size_ok [OF n, of oc] by blast
  show "\<exists>c1 c2. OrthoCamera_set_size w h oc = Inr c1 \<and> OrthoCamera_set_c2w p c1 = Inr c2 \<and>
         width c2 = w \<and> height c2 = h \<and> c2w c2 = p \<and> OrthoCamera_tables_consistent c2"
  proof -
    obtain c1 where c1: "OrthoCamera_set_size w h oc = Inr c1" "width c1 = w" "height c1 = h"
      using OrthoCamera_set_size_ok [OF n, of oc] by blast
    have "0 \<le> width c1 * height c1" "width c1 * height c1 < 2 ^ 31" using n c1 by simp_all
    from OrthoCamera_set_c2w_ok [OF this, of p] c1 show ?thesis by auto
  qed
next
  assume n: "0 \<le> width c * height c" "width c * height c < 2 ^ 31"
  show "\<exists>c'. PinholeCamera_set_c2w p c = Inr c' \<and> width c' = width c \<and> height c' = height c \<and>
         c2w c' = p \<and> PinholeCamera_tables_consistent c'"
    using PinholeCamera_set_c2w_ok [OF n, of p] by blast
  show "\<exists>c'. PinholeCamera_set_principal_point pp c = Inr c' \<and> width c' = width c \<and>
         height c' = height c \<and> principal_point c' = pp \<and> PinholeCamera_tables_consistent c'"
    using PinholeCamera_set_principal_point_ok [OF n, of pp] by blast
  show "\<exists>c'. PinholeCamera_set_focal_length fl c = Inr c' \<and> width c' = width c \<and>
         height c' = height c \<and> focal_length c' = fl \<and> PinholeCamera_tables_consistent c'"
    using PinholeCamera_set_focal_length_ok [OF n, of fl] by blast
  show "\<exists>c'. PinholeCamera_set_fov_x a c = Inr c' \<and> width c' = width c \<and>
         height c' = height c \<and> PinholeCamera_tables_consistent c'"
    using PinholeCamera_set_fov_x_ok [OF n, of a] by blast
  show "\<exists>c'. PinholeCamera_set_fov_y a c = Inr c' \<and> width c' = width c \<and>
         height c' = height c \<and> PinholeCamera_tables_consistent c'"
    using PinholeCamera_set_fov_y_ok [OF n, of a] by blast
next
  assume n: "0 \<le> width oc * height oc" "width oc * height oc < 2 ^ 31"
  show "\<exists>c'. OrthoCamera_set_c2w p oc = Inr c' \<and> width c' = width oc \<and> height c' = height oc \<and>
         c2w c' = p \<and> OrthoCamera_tables_consistent c'"
    using OrthoCamera_set_c2w_ok [OF n, of p] by blast
qed

theorem tables_consistent_after_mutation_witness:
  "\<exists>c oc c1 c2 o1 o2.
     PinholeCamera_new 2 2 affine3_Identity (1 / 2, 1 / 2) (1, 1) = Inr c \<and>
     OrthoCamera_new 2 2 affine3_Identity = Inr oc \<and>
     PinholeCamera_set_size 3 2 c = Inr c1 \<and>
     PinholeCamera_set_c2w \<lparr>linear = ((0, - 1, 0), (1, 0, 0), (0, 0, 1)), translation = (5, 6, 7)\<rparr> c1 = Inr c2 \<and>
     width c2 = 3 \<and> height c2 = 2 \<and>
     length (org_ray_c_table c2) = 6 \<and> length (org_ray_w_table c2) = 6 \<and>
     length (ray_c_table c2) = 6 \<and> length (ray_w_table c2) = 6 \<and>
     PinholeCamera_org_ray_w_int c2 2 1 = Some (5, 6, 7) \<and>
     PinholeCamera_ray_w_int c2 2 1 = Some (PinholeCamera_ray_w c2 2 1) \<and>
     OrthoCamera_set_size 3 2 oc = Inr o1 \<and>
     OrthoCamera_set_c2w \<lparr>linear = ((0, - 1, 0), (1, 0, 0), (0, 0, 1)), translation = (5, 6, 7)\<rparr> o1 = Inr o2 \<and>
     width o2 = 3 \<and> height o2 = 2 \<and>
     length (ortho_org_ray_w_table o2) = 6 \<and>
     OrthoCamera_ray_w_int o2 2 1 = Some (0, 0, 1)"
proof -
  let ?p = "\<lparr>linear = ((0, - 1, 0), (1, 0, 0), (0, 0, 1)), translation = (5 :: real, 6 :: real, 7 :: real)\<rparr>"
  obtain c where c: "PinholeCamera_new 2 2 affine3_Identity (1 / 2, 1 / 2) (1, 1) = Inr c"
    using PinholeCamera_new_ok [of 2 2 affine3_Identity "(1 / 2, 1 / 2)" "(1, 1)"] by auto
  obtain oc where oc: "OrthoCamera_new 2 2 affine3_Identity = Inr oc"
    using OrthoCamera_new_ok [of 2 2 affine3_Identity] by auto
  have n: "(0 :: int) \<le> 3 * 2 \<and> (3 :: int) * 2 < 2 ^ 31" by simp
  from tables_consistent_after_mutation [of 3 2 c ?p oc] n
  obtain c1 c2 o1 o2 where
    p: "PinholeCamera_set_size 3 2 c = Inr c1" "PinholeCamera_set_c2w ?p c1 = Inr c2"
      "width c2 = 3" "height c2 = 2" "c2w c2 = ?p" "PinholeCamera_tables_consistent c2"
    and q: "OrthoCamera_set_size 3 2 oc = Inr o1" "OrthoCamera_set_c2w ?p o1 = Inr o2"
      "width o2 = 3" "height o2 = 2" "c2w o2 = ?p" "OrthoCamera_tables_consistent o2"
    by blast
  have pc: "pose_cached c2"
    using PinholeCamera_set_c2w_ok [of c1 ?p] PinholeCamera_set_size_ok [of 3 2 c] p(1,2)
    by auto
  have po: "pose_cached o2"
    using OrthoCamera_set_c2w_ok [of o1 ?p] OrthoCamera_set_size_ok [of 3 2 oc] q(1,2)
    by auto
  have len: "length (org_ray_c_table c2) = 6" "length (org_ray_w_table c2) = 6"
    "length (ray_c_table c2) = 6" "length (ray_w_table c2) = 6"
    using p(6) unfolding PinholeCamera_tables_consistent_def by (simp_all add: p(3,4))
  have cell: "PinholeCamera_org_ray_w_int c2 2 1 = Some (PinholeCamera_org_ray_w c2 2 1)"
    "PinholeCamera_ray_w_int c2 2 1 = Some (PinholeCamera_ray_w c2 2 1)"
    using p(6) unfolding PinholeCamera_tables_consistent_def by (simp_all add: p(3,4))
  have org: "PinholeCamera_org_ray_w c2 2 1 = (5, 6, 7)"
    using pc by (simp add: PinholeCamera_org_ray_w_def pose_cached_def p(5))
  have olen: "length (ortho_org_ray_w_table o2) = 6"
    using q(6) unfolding OrthoCamera_tables_consistent_def by (simp add: q(3,4))
  have ocell: "OrthoCamera_ray_w_int o2 2 1 = Some (OrthoCamera_ray_w o2 2 1)"
    using q(6) unfolding OrthoCamera_tables_consistent_def by (simp add: q(3,4))
  have odir: "OrthoCamera_ray_w o2 2 1 = (0, 0, 1)"
    using po by (simp add: OrthoCamera_ray_w_def pose_cached_def q(5) col_def)
  show ?thesis
    using c oc p(1-4) q(1-4) len cell olen ocell
    unfolding org odir by blast
qed

section \<open>No validation in the setters\<close>

text \<open>
  C7, as the specification states it: a non-positive width or height given to
  \<^verbatim>\<open>set_size\<close>, a non-positive focal length given to \<^verbatim>\<open>set_focal_length\<close> and a
  field of view of 180 degrees or more given to \<^verbatim>\<open>set_fov_x\<close> or \<^verbatim>\<open>set_fov_y\<close>
  raise an error at the call. The setters have no such check: on a 2 x 2 camera each of
  the calls below returns without an error.
\<close>

theorem setters_raise_ConfigurationError_counterexample:
  "\<not> isl (PinholeCamera_set_size 0 (- 3)
            (projr (PinholeCamera_new 2 2 affine3_Identity (1 / 2, 1 / 2) (1, 1)))) \<and>
   \<not> isl (OrthoCamera_set_size (- 2) 0 (projr (OrthoCamera_new 2 2 affine3_Identity))) \<and>
   \<not> isl (PinholeCamera_set_focal_length (- 1, 0)
            (projr (PinholeCamera_new 2 2 affine3_Identity (1 / 2, 1 / 2) (1, 1)))) \<and>
   \<not> isl (PinholeCamera_set_fov_x 200
            (projr (PinholeCamera_new 2 2 affine3_Identity (1 / 2, 1 / 2) (1, 1)))) \<and>
   \<not> isl (PinholeCamera_set_fov_y 180
            (projr (PinholeCamera_new 2 2 affine3_Identity (1 / 2, 1 / 2) (1, 1))))"
proof -
  obtain c where c: "PinholeCamera_new 2 2 affine3_Identity (1 / 2, 1 / 2) (1, 1) = Inr c"
    and wh: "width c = 2" "height c = 2"
    using PinholeCamera_new_ok [of 2 2 affine3_Identity "(1 / 2, 1 / 2)" "(1, 1)"] by auto
  obtain oc where oc: "OrthoCamera_new 2 2 affine3_Identity = Inr oc"
    using OrthoCamera_new_ok [of 2 2 affine3_Identity] by auto
  have n: "0 \<le> width c * height c" "width c * height c < 2 ^ 31" by (simp_all add: wh)
  have "\<not> isl (PinholeCamera_set_size 0 (- 3) c)"
    using PinholeCamera_set_size_ok [of 0 "- 3" c] by auto
  moreover have "\<not> isl (OrthoCamera_set_size (- 2) 0 oc)"
    using OrthoCamera_set_size_ok [of "- 2" 0 oc] by auto
  moreover have "\<not> isl (PinholeCamera_set_focal_length (- 1, 0) c)"
    using PinholeCamera_set_focal_length_ok [OF n, of "(- 1, 0)"] by auto
  moreover have "\<not> isl (PinholeCamera_set_fov_x 200 c)"
    using PinholeCamera_set_fov_x_ok [OF n, of 200] by auto
  moreover have "\<not> isl (PinholeCamera_set_fov_y 180 c)"
    using PinholeCamera_set_fov_y_ok [OF n, of 180] by auto
  ultimately show ?thesis by (simp add: c oc)
qed

text \<open>
  C7, amended. The setters validate nothing. When the product \<open>width * height\<close> is
  non-negative and an \<^verbatim>\<open>int\<close>, \<^verbatim>\<open>set_size\<close> returns and stores the width and height it
  is given, also a zero or two negative ones; on a camera with such a product,
  \<^verbatim>\<open>set_focal_length\<close> returns and stores the focal length it is given, also a
  non-positive one, and \<^verbatim>\<open>set_fov_x\<close> and \<^verbatim>\<open>set_fov_y\<close> return for every angle. A
  \<^verbatim>\<open>set_size\<close> with a negative product fails, in the rebuild of the tables.
\<close>

theorem setters_do_not_validate:
  fixes c :: pinhole_camera and oc :: ortho_camera
  shows
   "(0 \<le> w * h \<and> w * h < 2 ^ 31 \<longrightarrow>
      (\<exists>c'. PinholeCamera_set_size w h c = Inr c' \<and> width c' = w \<and> height c' = h) \<and>
      (\<exists>c'. OrthoCamera_set_size w h oc = Inr c' \<and> width c' = w \<and> height c' = h)) \<and>
    (w * h < 0 \<longrightarrow>
      isl (PinholeCamera_set_size w h c) \<and> isl (OrthoCamera_set_size w h oc)) \<and>
    (0 \<le> width c * height c \<and> width c * height c < 2 ^ 31 \<longrightarrow>
      (\<exists>c'. PinholeCamera_set_focal_length fl c = Inr c' \<and> focal_length c' = fl) \<and>
      (\<exists>c'. PinholeCamera_set_fov_x a c = Inr c') \<and>
      (\<exists>c'. PinholeCamera_set_fov_y a c = Inr c'))"
proof (intro conjI impI; (elim conjE)?)
  assume n: "0 \<le> w * h" "w * h < 2 ^ 31"
  show "\<exists>c'. PinholeCamera_set_size w h c = Inr c' \<and> width c' = w \<and> height c' = h"
    using PinholeCamera_set_size_ok [OF n, of c] by blast
  show "\<exists>c'. OrthoCamera_set_size w h oc = Inr c' \<and> width c' = w \<and> height c' = h"
    using OrthoCamera_set_size_ok [OF n, of oc] by blast
next
  assume "w * h < 0"
  then have e: "isl (table_count w h)" by (rule table_count_negative)
  show "isl (PinholeCamera_set_size w h c)"
    using e by (auto simp: PinholeCamera_set_size_def PinholeCamera_InitRayTable_def
        Camera_set_size_def split: sum.splits)
  show "isl (OrthoCamera_set_size w h oc)"
    using e by (auto simp: OrthoCamera_set_size_def OrthoCamera_InitRayTable_def
        Camera_set_size_def split: sum.splits)
next
  assume n: "0 \<le> width c * height c" "width c * height c < 2 ^ 31"
  show "\<exists>c'. PinholeCamera_set_focal_length fl c = Inr c' \<and> focal_length c' = fl"
    using PinholeCamera_set_focal_length_ok [OF n, of fl] by blast
  show "\<exists>c'. PinholeCamera_set_fov_x a c = Inr c'"
    using PinholeCamera_set_fov_x_ok [OF n, of a] by blast
  show "\<exists>c'. PinholeCamera_set_fov_y a c = Inr c'"
    using PinholeCamera_set_fov_y_ok [OF n, of a] by blast
qed

theorem setters_do_not_validate_witness:
  "\<exists>c oc c1 o1 c2 c3 c4.
     PinholeCamera_new 2 2 affine3_Identity (1 / 2, 1 / 2) (1, 1) = Inr c \<and>
     OrthoCamera_new 2 2 affine3_Identity = Inr oc \<and>
     PinholeCamera_set_size 0 (- 3) c = Inr c1 \<and> width c1 = 0 \<and> height c1 = - 3 \<and>
     OrthoCamera_set_size 0 (- 3) oc = Inr o1 \<and> width o1 = 0 \<and> height o1 = - 3 \<and>
     isl (PinholeCamera_set_size (- 1) 2 c) \<and> isl (OrthoCamera_set_size (- 1) 2 oc) \<and>
     PinholeCamera_set_focal_length (- 1, 0) c = Inr c2 \<and> focal_length c2 = (- 1, 0) \<and>
     PinholeCamera_set_fov_x 200 c = Inr c3 \<and>
     PinholeCamera_set_fov_y 180 c = Inr c4"
proof -
  obtain c where c: "PinholeCamera_new 2 2 affine3_Identity (1 / 2, 1 / 2) (1, 1) = Inr c"
    and wh: "width c = 2" "height c = 2"
    using PinholeCamera_new_ok [of 2 2 affine3_Identity "(1 / 2, 1 / 2)" "(1, 1)"] by auto
  obtain oc where oc: "OrthoCamera_new 2 2 affine3_Identity = Inr oc"
    using OrthoCamera_new_ok [of 2 2 affine3_Identity] by auto
  have n: "0 \<le> width c * height c \<and> width c * height c < 2 ^ 31" by (simp add: wh)
  have s: "(0 :: int) \<le> 0 * - 3 \<and> (0 :: int) * - 3 < 2 ^ 31" by simp
  have m: "(- 1 :: int) * 2 < 0" by simp
  from setters_do_not_validate [of 0 "- 3" c oc "(- 1, 0)" 200] s n
  obtain c1 o1 c2 c3 where
    "PinholeCamera_set_size 0 (- 3) c = Inr c1" "width c1 = 0" "height c1 = - 3"
    "OrthoCamera_set_size 0 (- 3) oc = Inr o1" "width o1 = 0" "height o1 = - 3"
    "PinholeCamera_set_focal_length (- 1, 0) c = Inr c2" "focal_length c2 = (- 1, 0)"
    "PinholeCamera_set_fov_x 200 c = Inr c3"
    by blast
  moreover from setters_do_not_validate [of 0 "- 3" c oc "(- 1, 0)" 180] n
  obtain c4 where "PinholeCamera_set_fov_y 180 c = Inr c4" by blast
  moreover from setters_do_not_validate [of "- 1" 2 c oc] m
  have "isl (PinholeCamera_set_size (- 1) 2 c)" "isl (OrthoCamera_set_size (- 1) 2 oc)"
    by blast+
  ultimately show ?thesis using c oc by blast
qed

section \<open>Rendering needs a prepared mesh and a camera\<close>

text \<open>
  C8. \<^verbatim>\<open>render\<close> on a renderer whose mesh is not prepared or whose camera is not set
  returns false and leaves the three outputs as they were: so on a new renderer, after
  \<^verbatim>\<open>set_camera\<close> alone, after \<^verbatim>\<open>set_mesh\<close> and \<^verbatim>\<open>prepare_mesh\<close> alone, and after
  a \<^verbatim>\<open>prepare_mesh\<close> that failed. Otherwise it returns true with three outputs of the
  camera's width and height, each pixel of which holds what the pipeline gives there
  (zero colour, depth and mask where it finds no hit).
\<close>

theorem render_requires_mesh_and_camera:
  "(\<not> mesh_initialized r \<or> camera_ref r = None \<longrightarrow> render pipeline r out = (False, out)) \<and>
   render pipeline Renderer_new out = (False, out) \<and>
   render pipeline (set_camera cam Renderer_new) out = (False, out) \<and>
   render pipeline (snd (prepare_mesh builds (set_mesh m Renderer_new))) out = (False, out) \<and>
   (\<not> builds m \<longrightarrow>
      render pipeline (snd (prepare_mesh builds (set_mesh m (set_camera cam Renderer_new)))) out =
        (False, out)) \<and>
   (builds m \<longrightarrow>
      mesh_initialized (snd (prepare_mesh builds (set_mesh m (set_camera cam Renderer_new)))) \<and>
      mesh_ref (snd (prepare_mesh builds (set_mesh m (set_camera cam Renderer_new)))) = Some m \<and>
      camera_ref (snd (prepare_mesh builds (set_mesh m (set_camera cam Renderer_new)))) = Some cam) \<and>
   (mesh_initialized r \<and> mesh_ref r = Some m \<and> camera_ref r = Some cam \<longrightarrow>
      (\<exists>color depth mask. render pipeline r out = (True, color, depth, mask) \<and>
         image_width color = camera_width cam \<and> image_height color = camera_height cam \<and>
         image_width depth = camera_width cam \<and> image_height depth = camera_height cam \<and>
         image_width mask = camera_width cam \<and> image_height mask = camera_height cam \<and>
         length (image_data color) = nat (camera_width cam * camera_height cam) \<and>
         length (image_data depth) = nat (camera_width cam * camera_height cam) \<and>
         length (image_data mask) = nat (camera_width cam * camera_height cam) \<and>
         (\<forall>x\<in>{0 ..< camera_width cam}. \<forall>y\<in>{0 ..< camera_height cam}.
            image_at color x y =
              Some (case pipeline cam m (option_val r) x y of
                      None \<Rightarrow> (0, 0, 0) | Some (rgb, d) \<Rightarrow> rgb) \<and>
            image_at depth x y =
              Some (case pipeline cam m (option_val r) x y of None \<Rightarrow> 0 | Some (rgb, d) \<Rightarrow> d) \<and>
            image_at mask x y =
              Some (case pipeline cam m (option_val r) x y of None \<Rightarrow> 0 | Some (rgb, d) \<Rightarrow> 1))))"
proof (intro conjI impI)
  show "render pipeline r out = (False, out)" if "\<not> mesh_initialized r \<or> camera_ref r = None"
    using that by (rule render_not_ready)
  show "render pipeline Renderer_new out = (False, out)"
    by (rule render_not_ready) (simp add: Renderer_new_def)
  show "render pipeline (set_camera cam Renderer_new) out = (False, out)"
    by (rule render_not_ready) (simp add: Renderer_new_def set_camera_def)
  show "render pipeline (snd (prepare_mesh builds (set_mesh m Renderer_new))) out = (False, out)"
    by (rule render_not_ready) (simp add: Renderer_new_def set_mesh_def prepare_mesh_def)
  show "render pipeline (snd (prepare_mesh builds (set_mesh m (set_camera cam Renderer_new)))) out =
        (False, out)" if "\<not> builds m"
    using that
    by (intro render_not_ready) (simp add: Renderer_new_def set_mesh_def set_camera_def prepare_mesh_def)
  show "mesh_initialized (snd (prepare_mesh builds (set_mesh m (set_camera cam Renderer_new))))"
    "mesh_ref (snd (prepare_mesh builds (set_mesh m (set_camera cam Renderer_new)))) = Some m"
    "camera_ref (snd (prepare_mesh builds (set_mesh m (set_camera cam Renderer_new)))) = Some cam"
    if "builds m"
    using that by (simp_all add: Renderer_new_def set_mesh_def set_camera_def prepare_mesh_def)
next
  assume "mesh_initialized r \<and> mesh_ref r = Some m \<and> camera_ref r = Some cam"
  then show "\<exists>color depth mask. render pipeline r out = (True, color, depth, mask) \<and>
         image_width color = camera_width cam \<and> image_height color = camera_height cam \<and>
         image_width depth = camera_width cam \<and> image_height depth = camera_height cam \<and>
         image_width mask = camera_width cam \<and> image_height mask = camera_height cam \<and>
         length (image_data color) = nat (camera_width cam * camera_height cam) \<and>
         length (image_data depth) = nat (camera_width cam * camera_height cam) \<and>
         length (image_data mask) = nat (camera_width cam * camera_height cam) \<and>
         (\<forall>x\<in>{0 ..< camera_width cam}. \<forall>y\<in>{0 ..< camera_height cam}.
            image_at color x y =
              Some (case pipeline cam m (option_val r) x y of
                      None \<Rightarrow> (0, 0, 0) | Some (rgb, d) \<Rightarrow> rgb) \<and>
            image_at depth x y =
              Some (case pipeline cam m (option_val r) x y of None \<Rightarrow> 0 | Some (rgb, d) \<Rightarrow> d) \<and>
            image_at mask x y =
              Some (case pipeline cam m (option_val r) x y of None \<Rightarrow> 0 | Some (rgb, d) \<Rightarrow> 1))"
    using render_ready [of r m cam pipeline out] by blast
qed

theorem render_requires_mesh_and_camera_witness:
  "\<exists>oc color depth mask.
     OrthoCamera_new 2 1 affine3_Identity = Inr oc \<and>
     render (\<lambda>cam m opt x y. if x = 0 then Some ((255, 0, 0), 7) else None)
       (Renderer_new :: nat renderer)
       (\<lparr>image_width = 0, image_height = 0, image_data = []\<rparr>,
        \<lparr>image_width = 0, image_height = 0, image_data = []\<rparr>,
        \<lparr>image_width = 0, image_height = 0, image_data = []\<rparr>) =
       (False,
        \<lparr>image_width = 0, image_height = 0, image_data = []\<rparr>,
        \<lparr>image_width = 0, image_height = 0, image_data = []\<rparr>,
        \<lparr>image_width = 0, image_height = 0, image_data = []\<rparr>) \<and>
     render (\<lambda>cam m opt x y. if x = 0 then Some ((255, 0, 0), 7) else None)
       (snd (prepare_mesh (\<lambda>m. True)
          (set_mesh (0 :: nat) (set_camera (Ortho oc) Renderer_new))))
       (\<lparr>image_width = 0, image_height = 0, image_data = []\<rparr>,
        \<lparr>image_width = 0, image_height = 0, image_data = []\<rparr>,
        \<lparr>image_width = 0, image_height = 0, image_data = []\<rparr>) =
       (True, color, depth, mask) \<and>
     image_width color = 2 \<and> image_height color = 1 \<and> length (image_data color) = 2 \<and>
     length (image_data depth) = 2 \<and> length (image_data mask) = 2 \<and>
     image_at color 0 0 = Some (255, 0, 0) \<and> image_at color 1 0 = Some (0, 0, 0) \<and>
     image_at depth 0 0 = Some 7 \<and> image_at depth 1 0 = Some 0 \<and>
     image_at mask 0 0 = Some 1 \<and> image_at mask 1 0 = Some 0"
proof -
  let ?P = "\<lambda>(cam :: camera_ptr) (m :: nat) (opt :: RendererOption) (x :: int) (y :: int).
    if x = 0 then Some ((255 :: 8 word, 0 :: 8 word, 0 :: 8 word), 7 :: 16 word) else None"
  let ?out = "(\<lparr>image_width = 0, image_height = 0, image_data = [] :: rgb list\<rparr>,
        \<lparr>image_width = 0, image_height = 0, image_data = [] :: 16 word list\<rparr>,
        \<lparr>image_width = 0, image_height = 0, image_data = [] :: 8 word list\<rparr>)"
  obtain oc where oc: "OrthoCamera_new 2 1 affine3_Identity = Inr oc"
    and wh: "width oc = 2" "height oc = 1"
    using OrthoCamera_new_ok [of 2 1 affine3_Identity] by auto
  let ?r = "snd (prepare_mesh (\<lambda>m. True) (set_mesh (0 :: nat) (set_camera (Ortho oc) Renderer_new)))"
  note t = render_requires_mesh_and_camera [of ?r ?P ?out "Ortho oc" "\<lambda>m. True" 0]
  have f: "render ?P (Renderer_new :: nat renderer) ?out = (False, ?out)"
    using t by blast
  have ready: "mesh_initialized ?r \<and> mesh_ref ?r = Some 0 \<and> camera_ref ?r = Some (Ortho oc)"
    using t by blast
  with t obtain color depth mask where
    run: "render ?P ?r ?out = (True, color, depth, mask)"
    and dims: "image_width color = camera_width (Ortho oc)"
      "image_height color = camera_height (Ortho oc)"
      "length (image_data color) = nat (camera_width (Ortho oc) * camera_height (Ortho oc))"
      "length (image_data depth) = nat (camera_width (Ortho oc) * camera_height (Ortho oc))"
      "length (image_data mask) = nat (camera_width (Ortho oc) * camera_height (Ortho oc))"
    and px: "\<forall>x\<in>{0 ..< camera_width (Ortho oc)}. \<forall>y\<in>{0 ..< camera_height (Ortho oc)}.
            image_at color x y =
              Some (case ?P (Ortho oc) 0 (option_val ?r) x y of
                      None \<Rightarrow> (0, 0, 0) | Some (rgb, d) \<Rightarrow> rgb) \<and>
            image_at depth x y =
              Some (case ?P (Ortho oc) 0 (option_val ?r) x y of None \<Rightarrow> 0 | Some (rgb, d) \<Rightarrow> d) \<and>
            image_at mask x y =
              Some (case ?P (Ortho oc) 0 (option_val ?r) x y of None \<Rightarrow> 0 | Some (rgb, d) \<Rightarrow> 1)"
    by blast
  have "(0 :: int) \<in> {0 ..< camera_width (Ortho oc)}" "(1 :: int) \<in> {0 ..< camera_width (Ortho oc)}"
    "(0 :: int) \<in> {0 ..< camera_height (Ortho oc)}"
    by (simp_all add: wh)
  with px have
    "image_at color 0 0 = Some (255, 0, 0)" "image_at color 1 0 = Some (0, 0, 0)"
    "image_at depth 0 0 = Some 7" "image_at depth 1 0 = Some 0"
    "image_at mask 0 0 = Some 1" "image_at mask 1 0 = Some 0"
    by fastforce+
  moreover have "image_width color = 2" "image_height color = 1" "length (image_data color) = 2"
    "length (image_data depth) = 2" "length (image_data mask) = 2"
    using dims by (simp_all add: wh)
  ultimately show ?thesis using oc f run by blast
qed

end
